theory Spec2Isabelle
  imports Main "HOL-Library.Sublist" "HOL-Library.Word"
begin

section \<open>Strings and bytes\<close>

text \<open>
  A Python \<open>str\<close> is modelled as a \<open>string\<close> holding its UTF-8 bytes, a \<open>bytes\<close>
  value as a list of 8-bit words. The substring test \<open>p in s\<close> is \<open>sublist p s\<close>,
  \<open>s.startswith(p)\<close> is \<open>prefix p s\<close>. Searching an ASCII pattern in the UTF-8
  bytes finds it exactly where it stands among the code points.
\<close>

type_synonym byte = "8 word"

text \<open>
  \<open>str.lower()\<close> follows the lower-case mapping of Unicode, code point by code point.
  The model reads the bytes as code points: an ASCII byte stands for itself, and a byte
  outside ASCII forms one code point with the continuation bytes (\<open>0x80\<close> to \<open>0xBF\<close>)
  that follow it. An ASCII capital becomes its small letter and any other ASCII byte
  stays. Two code points outside ASCII have ASCII letters in their lower-case form, and
  the model writes them out: \<open>U+0130\<close> (bytes \<open>C4 B0\<close>) becomes \<open>i\<close> followed by
  \<open>U+0307\<close> (bytes \<open>CC 87\<close>), and the Kelvin sign \<open>U+212A\<close> (bytes \<open>E2 84 AA\<close>)
  becomes \<open>k\<close>. For every other code point outside ASCII the lower-case form comes
  from the table of the Unicode database, which is not part of the repository: the
  table is a parameter, a function of the bytes before the code point, the bytes of the
  code point and the bytes after it (the form of a capital sigma depends on its
  neighbours).
\<close>

type_synonym lower_table = "string \<Rightarrow> string \<Rightarrow> string \<Rightarrow> string"

definition is_ascii :: "char \<Rightarrow> bool" where
  "is_ascii c = ((of_char c :: nat) < 128)"

definition is_continuation :: "char \<Rightarrow> bool" where
  "is_continuation c = (128 \<le> (of_char c :: nat) \<and> (of_char c :: nat) < 192)"

definition is_digit :: "char \<Rightarrow> bool" where
  "is_digit c = (48 \<le> (of_char c :: nat) \<and> (of_char c :: nat) \<le> 57)"

definition lower_char :: "char \<Rightarrow> char" where
  "lower_char c =
     (let n = (of_char c :: nat) in if 65 \<le> n \<and> n \<le> 90 then char_of (n + 32) else c)"

definition lower_code_point :: "lower_table \<Rightarrow> string \<Rightarrow> string \<Rightarrow> string \<Rightarrow> string" where
  "lower_code_point U pre q post =
     (if q = [CHR 0xC4, CHR 0xB0] then [CHR 0x69, CHR 0xCC, CHR 0x87]
      else if q = [CHR 0xE2, CHR 0x84, CHR 0xAA] then [CHR 0x6B]
      else U pre q post)"

function lower_from :: "lower_table \<Rightarrow> string \<Rightarrow> string \<Rightarrow> string" where
  "lower_from U pre [] = []"
| "lower_from U pre (c # rest) =
     (if is_ascii c then lower_char c # lower_from U (pre @ [c]) rest
      else
        (let q = c # takeWhile is_continuation rest;
             post = dropWhile is_continuation rest
         in lower_code_point U pre q post @ lower_from U (pre @ q) post))"
  by pat_completeness auto
termination
  by (relation "measure (\<lambda>(U, pre, s). length s)")
    (auto simp: less_Suc_eq_le length_dropWhile_le)

definition lower :: "lower_table \<Rightarrow> string \<Rightarrow> string" where
  "lower U s = lower_from U [] s"

text \<open>
  What is known of the table: the lower-case form of a code point outside ASCII, other
  than the two above, is not empty and has no ASCII byte in it.
\<close>

definition non_ascii_table :: "lower_table \<Rightarrow> bool" where
  "non_ascii_table U =
     (\<forall>pre q post. q \<noteq> [] \<and> (\<forall>c \<in> set q. \<not> is_ascii c) \<longrightarrow>
        U pre q post \<noteq> [] \<and> (\<forall>c \<in> set (U pre q post). \<not> is_ascii c))"

text \<open>
  \<open>str.upper()\<close> is a function of the Python runtime as well. Nothing below depends on
  what it returns, so it is taken whole as a parameter (the field \<open>str_upper\<close> of the
  record of collaborators).
\<close>

text \<open>The pictographs that open the user-visible messages, as UTF-8.\<close>

definition sym_busy :: string where
  "sym_busy = [CHR 0xF0, CHR 0x9F, CHR 0x94, CHR 0x84]"

definition sym_lock :: string where
  "sym_lock = [CHR 0xF0, CHR 0x9F, CHR 0x94, CHR 0x90]"

definition sym_hourglass :: string where
  "sym_hourglass = [CHR 0xE2, CHR 0x8F, CHR 0xB3]"

definition sym_stopwatch :: string where
  "sym_stopwatch = [CHR 0xE2, CHR 0x8F, CHR 0xB1, CHR 0xEF, CHR 0xB8, CHR 0x8F]"

definition sym_globe :: string where
  "sym_globe = [CHR 0xF0, CHR 0x9F, CHR 0x8C, CHR 0x90]"

definition sym_folder :: string where
  "sym_folder = [CHR 0xF0, CHR 0x9F, CHR 0x93, CHR 0x81]"

definition sym_picture :: string where
  "sym_picture = [CHR 0xF0, CHR 0x9F, CHR 0x96, CHR 0xBC, CHR 0xEF, CHR 0xB8, CHR 0x8F]"

definition sym_warning :: string where
  "sym_warning = [CHR 0xE2, CHR 0x9A, CHR 0xA0, CHR 0xEF, CHR 0xB8, CHR 0x8F]"

definition sym_chart :: string where
  "sym_chart = [CHR 0xF0, CHR 0x9F, CHR 0x93, CHR 0x8A]"

definition sym_pin :: string where
  "sym_pin = [CHR 0xF0, CHR 0x9F, CHR 0x93, CHR 0x8C]"

definition sym_calendar :: string where
  "sym_calendar = [CHR 0xF0, CHR 0x9F, CHR 0x93, CHR 0x85]"

definition sym_magnifier :: string where
  "sym_magnifier = [CHR 0xF0, CHR 0x9F, CHR 0x94, CHR 0x8D]"

section \<open>Error classifier: \<open>get_user_friendly_error\<close>\<close>

definition msg_busy :: string where
  "msg_busy = sym_busy @ '' The AI service is currently busy. Please try again in a few moments.''"

definition msg_auth :: string where
  "msg_auth = sym_lock @ '' Authentication issue with the AI service. Please contact support.''"

definition msg_throttle :: string where
  "msg_throttle = sym_hourglass @ '' Too many requests. Please wait a moment and try again.''"

definition msg_slow :: string where
  "msg_slow = sym_stopwatch @ '' The analysis is taking longer than expected. Please try again.''"

definition msg_connectivity :: string where
  "msg_connectivity =
     sym_globe @ '' Network connectivity issue. Please check your internet connection.''"

definition msg_oversize :: string where
  "msg_oversize =
     sym_folder @ '' The uploaded image is too large. Please use a smaller image file.''"

definition msg_bad_format :: string where
  "msg_bad_format = sym_picture @
     '' Invalid image format. Please upload a valid chart image (PNG, JPG, or GIF).''"

definition msg_generic :: string where
  "msg_generic = sym_warning @
     '' Something went wrong during analysis. Please try again or contact support.''"

text \<open>
  \<open>server.py\<close>, lines 62 to 81. The three numeric patterns are searched in the raw
  text, the word patterns in the lower-cased text, in the order of the \<open>if\<close>/\<open>elif\<close>
  chain. The first argument is the table that \<open>str.lower()\<close> uses.
\<close>

definition get_user_friendly_error :: "lower_table \<Rightarrow> string \<Rightarrow> string" where
  "get_user_friendly_error U error_str =
     (let error_lower = lower U error_str in
      if sublist ''503'' error_str \<or> sublist ''overloaded'' error_lower
           \<or> sublist ''unavailable'' error_lower then msg_busy
      else if sublist ''401'' error_str \<or> sublist ''unauthorized'' error_lower then msg_auth
      else if sublist ''429'' error_str \<or> sublist ''rate limit'' error_lower then msg_throttle
      else if sublist ''timeout'' error_lower then msg_slow
      else if sublist ''network'' error_lower \<or> sublist ''connection'' error_lower
        then msg_connectivity
      else if sublist ''file'' error_lower \<and> sublist ''size'' error_lower then msg_oversize
      else if sublist ''invalid'' error_lower \<and> sublist ''image'' error_lower
        then msg_bad_format
      else msg_generic)"

text \<open>
  The classifier as the specification words it: an ordered table of rules, every
  pattern matched as a substring of the lower-cased input, the first rule that matches
  giving the message, and the generic message when none does. The messages are written
  out here, byte for byte as in the source.
\<close>

definition classify_rules :: "((string \<Rightarrow> bool) \<times> string) list" where
  "classify_rules =
     [(\<lambda>l. sublist ''503'' l \<or> sublist ''overloaded'' l \<or> sublist ''unavailable'' l,
       [CHR 0xF0, CHR 0x9F, CHR 0x94, CHR 0x84] @
       '' The AI service is currently busy. Please try again in a few moments.''),
      (\<lambda>l. sublist ''401'' l \<or> sublist ''unauthorized'' l,
       [CHR 0xF0, CHR 0x9F, CHR 0x94, CHR 0x90] @
       '' Authentication issue with the AI service. Please contact support.''),
      (\<lambda>l. sublist ''429'' l \<or> sublist ''rate limit'' l,
       [CHR 0xE2, CHR 0x8F, CHR 0xB3] @
       '' Too many requests. Please wait a moment and try again.''),
      (\<lambda>l. sublist ''timeout'' l,
       [CHR 0xE2, CHR 0x8F, CHR 0xB1, CHR 0xEF, CHR 0xB8, CHR 0x8F] @
       '' The analysis is taking longer than expected. Please try again.''),
      (\<lambda>l. sublist ''network'' l \<or> sublist ''connection'' l,
       [CHR 0xF0, CHR 0x9F, CHR 0x8C, CHR 0x90] @
       '' Network connectivity issue. Please check your internet connection.''),
      (\<lambda>l. sublist ''file'' l \<and> sublist ''size'' l,
       [CHR 0xF0, CHR 0x9F, CHR 0x93, CHR 0x81] @
       '' The uploaded image is too large. Please use a smaller image file.''),
      (\<lambda>l. sublist ''invalid'' l \<and> sublist ''image'' l,
       [CHR 0xF0, CHR 0x9F, CHR 0x96, CHR 0xBC, CHR 0xEF, CHR 0xB8, CHR 0x8F] @
       '' Invalid image format. Please upload a valid chart image (PNG, JPG, or GIF).'')]"

definition generic_message :: string where
  "generic_message =
     [CHR 0xE2, CHR 0x9A, CHR 0xA0, CHR 0xEF, CHR 0xB8, CHR 0x8F] @
     '' Something went wrong during analysis. Please try again or contact support.''"

fun first_match :: "((string \<Rightarrow> bool) \<times> string) list \<Rightarrow> string \<Rightarrow> string" where
  "first_match [] l = generic_message"
| "first_match ((p, m) # rules) l = (if p l then m else first_match rules l)"

definition classify_spec :: "lower_table \<Rightarrow> string \<Rightarrow> string" where
  "classify_spec U rawErrorText = first_match classify_rules (lower U rawErrorText)"

section \<open>Outcomes of a request handler\<close>

text \<open>
  A FastAPI \<open>HTTPException\<close> carries a status code and a detail text. A coroutine either
  returns a value or raises such an exception.
\<close>

record HTTPException =
  status_code :: int
  detail :: string

datatype 'a outcome = Returned 'a | Raised HTTPException

section \<open>Image ingestor: \<open>process_uploaded_image\<close>\<close>

text \<open>
  Modelled from the spec: \<open>base64.b64encode\<close> and \<open>base64.b64decode\<close> belong to the
  Python standard library, not to the repository; the specification names the encoding
  (base64 text). They follow RFC 4648: three bytes become four characters of the
  standard alphabet, and a last group of one or two bytes is padded with \<open>=\<close>.
\<close>

definition b64_alphabet :: string where
  "b64_alphabet = ''ABCDEFGHIJKLMNOPQRSTUVWXYZabcdefghijklmnopqrstuvwxyz0123456789+/''"

definition b64_char :: "nat \<Rightarrow> char" where
  "b64_char n = b64_alphabet ! (n mod 64)"

fun index_of :: "char \<Rightarrow> string \<Rightarrow> nat option" where
  "index_of c [] = None"
| "index_of c (x # xs) = (if x = c then Some 0 else map_option Suc (index_of c xs))"

definition b64_value :: "char \<Rightarrow> nat option" where
  "b64_value c = index_of c b64_alphabet"

definition b64_group :: "nat \<Rightarrow> string" where
  "b64_group n =
     [b64_char (n div 262144), b64_char (n div 4096), b64_char (n div 64), b64_char n]"

fun b64encode :: "byte list \<Rightarrow> string" where
  "b64encode (a # b # c # rest) =
     b64_group (unat a * 65536 + unat b * 256 + unat c) @ b64encode rest"
| "b64encode [a, b] = take 3 (b64_group (unat a * 65536 + unat b * 256)) @ ''=''"
| "b64encode [a] = take 2 (b64_group (unat a * 65536)) @ ''==''"
| "b64encode [] = []"

definition b64_number :: "char \<Rightarrow> char \<Rightarrow> char \<Rightarrow> char \<Rightarrow> nat option" where
  "b64_number c1 c2 c3 c4 =
     (case (b64_value c1, b64_value c2, b64_value c3, b64_value c4) of
        (Some v1, Some v2, Some v3, Some v4) \<Rightarrow> Some (((v1 * 64 + v2) * 64 + v3) * 64 + v4)
      | _ \<Rightarrow> None)"

definition b64_bytes :: "nat \<Rightarrow> byte list" where
  "b64_bytes n = [of_nat (n div 65536), of_nat (n div 256), of_nat n]"

fun b64decode :: "string \<Rightarrow> byte list option" where
  "b64decode (c1 # c2 # c3 # c4 # rest) =
     (if rest = [] \<and> c3 = CHR ''='' \<and> c4 = CHR ''='' then
        map_option (\<lambda>n. take 1 (b64_bytes n)) (b64_number c1 c2 (CHR ''A'') (CHR ''A''))
      else if rest = [] \<and> c4 = CHR ''='' then
        map_option (\<lambda>n. take 2 (b64_bytes n)) (b64_number c1 c2 c3 (CHR ''A''))
      else
        (case (b64_number c1 c2 c3 c4, b64decode rest) of
           (Some n, Some bs) \<Rightarrow> Some (b64_bytes n @ bs)
         | _ \<Rightarrow> None))"
| "b64decode [] = Some []"
| "b64decode _ = None"

text \<open>
  An \<open>UploadFile\<close>: its name, the content type the client declared (if any) and the
  bytes that \<open>read()\<close> returns.
\<close>

record UploadFile =
  filename :: "string option"
  content_type :: "string option"
  file_content :: "byte list"

definition max_size :: nat where
  "max_size = 10 * 1024 * 1024"

definition msg_too_large :: string where
  "msg_too_large = sym_folder @
     '' The uploaded image is too large. Please use an image smaller than 10MB.''"

definition msg_invalid_type :: string where
  "msg_invalid_type = sym_picture @
     '' Invalid file type. Please upload a valid image file (PNG, JPG, or GIF).''"

definition msg_empty :: string where
  "msg_empty = sym_folder @ '' The uploaded file is empty. Please select a valid image file.''"

text \<open>
  \<open>server.py\<close>, lines 553 to 593. The checks run in the order of the source: size,
  then content type (\<open>not content_type\<close> holds for \<open>None\<close> and for the empty string),
  then emptiness. Every \<open>HTTPException\<close> raised inside is re-raised unchanged.
  \<open>read()\<close> is taken to deliver the bytes of the upload.
\<close>

definition process_uploaded_image :: "UploadFile \<Rightarrow> string outcome" where
  "process_uploaded_image image_file =
     (let image_content = file_content image_file in
      if length image_content > max_size then
        Raised \<lparr>status_code = 400, detail = msg_too_large\<rparr>
      else if (case content_type image_file of
                 None \<Rightarrow> True
               | Some t \<Rightarrow> t = [] \<or> \<not> prefix ''image/'' t) then
        Raised \<lparr>status_code = 400, detail = msg_invalid_type\<rparr>
      else if length image_content = 0 then
        Raised \<lparr>status_code = 400, detail = msg_empty\<rparr>
      else Returned (b64encode image_content))"

text \<open>
  \<open>api/upload-image.py\<close>, \<open>handler.do_POST\<close>: the stand-alone upload handler. Its
  input is the \<open>Content-Type\<close> header of the request (the empty string when absent)
  and the form that \<open>cgi.FieldStorage\<close> parsed, a map from field names to items. The
  result is the sequence of calls with which the method writes its answer:
  \<open>send_response\<close>, \<open>send_header\<close>, \<open>end_headers\<close> and the write of the JSON body.
  The method first sends status 200 with its headers and ends the headers; only then
  does it read and check the form. Every exception is caught at the end of the method,
  which then sends status 400, two headers and the envelope \<open>{"error": str(e)}\<close>. This
  handler never looks at the content type of the file item.
\<close>

record FieldItem =
  item_filename :: "string option"
  item_data :: "byte list"

text \<open>
  The JSON bodies: the success answer with its fields \<open>message\<close>, \<open>image_data\<close> and
  \<open>filename\<close> (\<open>success\<close> is \<open>true\<close>), and the error envelope.
\<close>

datatype upload_body = UploadOk string string string | UploadError string

datatype wire = SendResponse int | SendHeader string string | EndHeaders | WriteBody upload_body

definition msg_file_empty :: string where
  "msg_file_empty = sym_folder @ '' The uploaded file is empty''"

definition msg_uploaded :: string where
  "msg_uploaded =
     [CHR 0xE2, CHR 0x9C, CHR 0x85] @ '' Image uploaded successfully! Ready for analysis.''"

text \<open>
  The statements of the \<open>try\<close> block after the headers: \<open>Inl\<close> carries the text of the
  exception raised, \<open>Inr\<close> the body of the success answer.
\<close>

definition upload_image_checks :: "string \<Rightarrow> (string \<rightharpoonup> FieldItem) \<Rightarrow> string + upload_body" where
  "upload_image_checks content_type_header form =
     (if \<not> sublist ''multipart/form-data'' content_type_header then Inl ''Invalid content type''
      else
        (case form ''file'' of
           None \<Rightarrow> Inl ''No file uploaded''
         | Some file_item \<Rightarrow>
             (case item_filename file_item of
                None \<Rightarrow> Inl ''No file selected''
              | Some name \<Rightarrow>
                  if name = [] then Inl ''No file selected''
                  else
                    (let image_data = item_data file_item in
                     if length image_data = 0 then Inl msg_file_empty
                     else if length image_data > 10 * 1024 * 1024 then Inl msg_too_large
                     else Inr (UploadOk msg_uploaded (b64encode image_data) name)))))"

definition upload_image_do_POST :: "string \<Rightarrow> (string \<rightharpoonup> FieldItem) \<Rightarrow> wire list" where
  "upload_image_do_POST content_type_header form =
     [SendResponse 200,
      SendHeader ''Content-type'' ''application/json'',
      SendHeader ''Access-Control-Allow-Origin'' ''*'',
      SendHeader ''Access-Control-Allow-Methods'' ''GET, POST, OPTIONS'',
      SendHeader ''Access-Control-Allow-Headers'' ''*'',
      EndHeaders] @
     (case upload_image_checks content_type_header form of
        Inr response \<Rightarrow> [WriteBody response]
      | Inl e \<Rightarrow>
          [SendResponse 400,
           SendHeader ''Content-type'' ''application/json'',
           SendHeader ''Access-Control-Allow-Origin'' ''*'',
           EndHeaders,
           WriteBody (UploadError e)])"

text \<open>
  What reaches the client: the status of the first status line, and the JSON bodies
  written. (A status line sent after the headers have ended arrives as part of the
  body.)
\<close>

fun status_received :: "wire list \<Rightarrow> int option" where
  "status_received [] = None"
| "status_received (SendResponse code # rest) = Some code"
| "status_received (x # rest) = status_received rest"

fun bodies_written :: "wire list \<Rightarrow> upload_body list" where
  "bodies_written [] = []"
| "bodies_written (WriteBody b # rest) = b # bodies_written rest"
| "bodies_written (x # rest) = bodies_written rest"

section \<open>LLM gateway: \<open>analyze_with_gemini_api\<close>\<close>

text \<open>
  The collaborators outside the repository, and the long prompt templates, are the
  fields of one record. \<open>send_message\<close> is \<open>LlmChat(api_key, ...).send_message\<close>: it
  takes the API key, the user message and the state of the outside world, and gives
  either the response text (\<open>Inr\<close>) or the text \<open>str(e)\<close> of the exception it raised
  (\<open>Inl\<close>), with the new state. The two clock readings are
  \<open>datetime.now().strftime('%Y-%m-%d %H:%M:%S')\<close> and \<open>datetime.now().isoformat()\<close>.
  \<open>validation_error_str\<close> is the text of the error with which the response model
  refuses section values that are not strings. \<open>str_upper\<close> is \<open>str.upper()\<close> and
  \<open>unicode_lower\<close> the table that \<open>str.lower()\<close> uses. Each prompt template is a
  function of the upper-cased symbol and exchange that the f-string interpolates (the
  technical template uses the symbol only; the legacy report template also takes the
  clock reading).
\<close>

record UserMessage =
  msg_text :: string
  file_contents :: "string list"

record 'w services =
  send_message :: "string \<Rightarrow> UserMessage \<Rightarrow> 'w \<Rightarrow> (string + string) \<times> 'w"
  strftime_now :: "'w \<Rightarrow> string"
  isoformat_now :: "'w \<Rightarrow> string"
  validation_error_str :: "string option list \<Rightarrow> string"
  str_upper :: "string \<Rightarrow> string"
  unicode_lower :: lower_table
  fundamental_prompt :: "string \<Rightarrow> string \<Rightarrow> string"
  sentiment_prompt :: "string \<Rightarrow> string \<Rightarrow> string"
  technical_prompt :: "string \<Rightarrow> string"
  recommendations_prompt :: "string \<Rightarrow> string \<Rightarrow> string"
  legacy_report_prompt :: "string \<Rightarrow> string \<Rightarrow> string \<Rightarrow> string"
  report_prompt :: "string \<Rightarrow> string \<Rightarrow> string"

text \<open>
  The state a request runs in: the state of the outside world and the log of the gateway
  calls made so far (API key and message of each call, oldest first). Only
  \<open>analyze_with_gemini_api\<close> writes the log.
\<close>

record 'w world =
  service :: 'w
  calls :: "(string \<times> UserMessage) list"

text \<open>
  \<open>server.py\<close>, lines 84 to 111. The image is attached when \<open>chart_image_base64\<close> is
  truthy (neither \<open>None\<close> nor empty). An exception of the service is re-raised as it
  is, and no call is repeated here.
\<close>

definition analyze_with_gemini_api ::
  "'w services \<Rightarrow> string \<Rightarrow> string \<Rightarrow> string option \<Rightarrow> 'w world
     \<Rightarrow> (string + string) \<times> 'w world" where
  "analyze_with_gemini_api X api_key prompt chart_image_base64 w =
     (let user_message =
        (case chart_image_base64 of
           None \<Rightarrow> \<lparr>msg_text = prompt, file_contents = []\<rparr>
         | Some img \<Rightarrow>
             if img \<noteq> [] then \<lparr>msg_text = prompt, file_contents = [img]\<rparr>
             else \<lparr>msg_text = prompt, file_contents = []\<rparr>);
        (response, s) = send_message X api_key user_message (service w)
      in (response, \<lparr>service = s, calls = calls w @ [(api_key, user_message)]\<rparr>))"

section \<open>Fallback executor\<close>

text \<open>
  \<open>GEMINI_API_KEYS\<close> (\<open>server.py\<close>, lines 32 to 36) is a module-level list of three
  entries: the key from the environment (or its default) and two fixed backups. The
  functions below take the list as an argument.
\<close>

definition GEMINI_API_KEYS :: "string \<Rightarrow> string \<Rightarrow> string \<Rightarrow> string list" where
  "GEMINI_API_KEYS primary backup_1 backup_2 = [primary, backup_1, backup_2]"

text \<open>
  The loop \<open>for i, api_key in enumerate(GEMINI_API_KEYS)\<close> that closes each of the four
  section functions (\<open>server.py\<close>, lines 210 to 224, 270 to 284, 329 to 343 and 378 to
  392; the four copies differ in the printed label and in the prompt and image they
  pass). \<open>n\<close> is \<open>len(GEMINI_API_KEYS)\<close>, \<open>i\<close> the index of the key at the head of the
  remaining list. A successful call returns at once; a failed call of the last key
  raises status 503 with the classified text; any other failed call continues. When
  the list is used up the function body ends, which returns \<open>None\<close>.
\<close>

fun api_key_loop ::
  "'w services \<Rightarrow> int \<Rightarrow> string \<Rightarrow> string option \<Rightarrow> int \<Rightarrow> string list \<Rightarrow> 'w world
     \<Rightarrow> string option outcome \<times> 'w world" where
  "api_key_loop X n prompt img i [] w = (Returned None, w)"
| "api_key_loop X n prompt img i (api_key # rest) w =
     (case analyze_with_gemini_api X api_key prompt img w of
        (Inr result, w') \<Rightarrow> (Returned (Some result), w')
      | (Inl e, w') \<Rightarrow>
          if i = n - 1 then
            (Raised \<lparr>status_code = 503,
                     detail = get_user_friendly_error (unicode_lower X) e\<rparr>, w')
          else api_key_loop X n prompt img (i + 1) rest w')"

definition get_fundamental_analysis ::
  "'w services \<Rightarrow> string list \<Rightarrow> string \<Rightarrow> string \<Rightarrow> 'w world
     \<Rightarrow> string option outcome \<times> 'w world" where
  "get_fundamental_analysis X keys symb exch w =
     api_key_loop X (int (length keys)) (fundamental_prompt X (str_upper X symb) (str_upper X exch))
       None 0 keys w"

definition get_sentiment_analysis ::
  "'w services \<Rightarrow> string list \<Rightarrow> string \<Rightarrow> string \<Rightarrow> 'w world
     \<Rightarrow> string option outcome \<times> 'w world" where
  "get_sentiment_analysis X keys symb exch w =
     api_key_loop X (int (length keys)) (sentiment_prompt X (str_upper X symb) (str_upper X exch))
       None 0 keys w"

definition get_technical_analysis ::
  "'w services \<Rightarrow> string list \<Rightarrow> string \<Rightarrow> string \<Rightarrow> string \<Rightarrow> 'w world
     \<Rightarrow> string option outcome \<times> 'w world" where
  "get_technical_analysis X keys symb exch chart_image_base64 w =
     api_key_loop X (int (length keys)) (technical_prompt X (str_upper X symb))
       (Some chart_image_base64) 0 keys w"

definition get_recommendations ::
  "'w services \<Rightarrow> string list \<Rightarrow> string \<Rightarrow> string \<Rightarrow> 'w world
     \<Rightarrow> string option outcome \<times> 'w world" where
  "get_recommendations X keys symb exch w =
     api_key_loop X (int (length keys)) (recommendations_prompt X (str_upper X symb) (str_upper X exch))
       None 0 keys w"

text \<open>
  The four sections by name, to speak of any section request at once: the prompt and
  the image a section passes to the gateway, and the section function that serves it.
  Only the technical section passes the chart image.
\<close>

datatype AnalysisSection = Fundamental | Sentiment | Technical | Recommendations

fun section_prompt :: "'w services \<Rightarrow> AnalysisSection \<Rightarrow> string \<Rightarrow> string \<Rightarrow> string" where
  "section_prompt X Fundamental symb exch = fundamental_prompt X (str_upper X symb) (str_upper X exch)"
| "section_prompt X Sentiment symb exch = sentiment_prompt X (str_upper X symb) (str_upper X exch)"
| "section_prompt X Technical symb exch = technical_prompt X (str_upper X symb)"
| "section_prompt X Recommendations symb exch =
     recommendations_prompt X (str_upper X symb) (str_upper X exch)"

fun section_image :: "AnalysisSection \<Rightarrow> string \<Rightarrow> string option" where
  "section_image Fundamental chart_image_base64 = None"
| "section_image Sentiment chart_image_base64 = None"
| "section_image Technical chart_image_base64 = Some chart_image_base64"
| "section_image Recommendations chart_image_base64 = None"

fun run_section ::
  "'w services \<Rightarrow> string list \<Rightarrow> AnalysisSection \<Rightarrow> string \<Rightarrow> string \<Rightarrow> string \<Rightarrow> 'w world
     \<Rightarrow> string option outcome \<times> 'w world" where
  "run_section X keys Fundamental symb exch chart w =
     get_fundamental_analysis X keys symb exch w"
| "run_section X keys Sentiment symb exch chart w =
     get_sentiment_analysis X keys symb exch w"
| "run_section X keys Technical symb exch chart w =
     get_technical_analysis X keys symb exch chart w"
| "run_section X keys Recommendations symb exch chart w =
     get_recommendations X keys symb exch w"

text \<open>
  \<open>analyze_with_fallback\<close> (\<open>server.py\<close>, lines 395 to 550), the legacy executor. The
  prompt is built anew in every round (the legacy prompt reads the clock). After a
  failure that is not the last key's, the source tests the error text for \<open>503\<close> or
  \<open>overloaded\<close> and continues in both branches. After the loop it raises a fixed
  busy message.
\<close>

definition msg_all_busy :: string where
  "msg_all_busy =
     sym_busy @ '' All AI services are currently busy. Please try again in a few moments.''"

definition fallback_prompt ::
  "'w services \<Rightarrow> string \<Rightarrow> string \<Rightarrow> bool \<Rightarrow> 'w world \<Rightarrow> string" where
  "fallback_prompt X symb exch use_legacy_prompt w =
     (if use_legacy_prompt then
        legacy_report_prompt X (str_upper X symb) (str_upper X exch) (strftime_now X (service w))
      else report_prompt X (str_upper X symb) (str_upper X exch))"

fun analyze_with_fallback_loop ::
  "'w services \<Rightarrow> int \<Rightarrow> string \<Rightarrow> string \<Rightarrow> string \<Rightarrow> bool \<Rightarrow> int \<Rightarrow> string list
     \<Rightarrow> 'w world \<Rightarrow> string outcome \<times> 'w world" where
  "analyze_with_fallback_loop X n symb exch chart use_legacy_prompt i [] w =
     (Raised \<lparr>status_code = 503, detail = msg_all_busy\<rparr>, w)"
| "analyze_with_fallback_loop X n symb exch chart use_legacy_prompt i (api_key # rest) w =
     (case analyze_with_gemini_api X api_key (fallback_prompt X symb exch use_legacy_prompt w)
             (Some chart) w of
        (Inr result, w') \<Rightarrow> (Returned result, w')
      | (Inl error_str, w') \<Rightarrow>
          if i = n - 1 then
            (Raised \<lparr>status_code = 503,
                     detail = get_user_friendly_error (unicode_lower X) error_str\<rparr>, w')
          else if sublist ''503'' error_str
                  \<or> sublist ''overloaded'' (lower (unicode_lower X) error_str) then
            analyze_with_fallback_loop X n symb exch chart use_legacy_prompt (i + 1) rest w'
          else
            analyze_with_fallback_loop X n symb exch chart use_legacy_prompt (i + 1) rest w')"

definition analyze_with_fallback ::
  "'w services \<Rightarrow> string list \<Rightarrow> string \<Rightarrow> string \<Rightarrow> string \<Rightarrow> bool \<Rightarrow> 'w world
     \<Rightarrow> string outcome \<times> 'w world" where
  "analyze_with_fallback X keys symb exch chart_image_base64 use_legacy_prompt w =
     analyze_with_fallback_loop X (int (length keys)) symb exch chart_image_base64
       use_legacy_prompt 0 keys w"

text \<open>
  The same executor as the specification words it: after a failure that is not the
  last key's it goes on to the next key, whatever the error.
\<close>

fun proceed_on_any_failure_loop ::
  "'w services \<Rightarrow> int \<Rightarrow> string \<Rightarrow> string \<Rightarrow> string \<Rightarrow> bool \<Rightarrow> int \<Rightarrow> string list
     \<Rightarrow> 'w world \<Rightarrow> string outcome \<times> 'w world" where
  "proceed_on_any_failure_loop X n symb exch chart use_legacy_prompt i [] w =
     (Raised \<lparr>status_code = 503, detail = msg_all_busy\<rparr>, w)"
| "proceed_on_any_failure_loop X n symb exch chart use_legacy_prompt i (api_key # rest) w =
     (case analyze_with_gemini_api X api_key (fallback_prompt X symb exch use_legacy_prompt w)
             (Some chart) w of
        (Inr result, w') \<Rightarrow> (Returned result, w')
      | (Inl error_str, w') \<Rightarrow>
          if i = n - 1 then
            (Raised \<lparr>status_code = 503,
                     detail = get_user_friendly_error (unicode_lower X) error_str\<rparr>, w')
          else proceed_on_any_failure_loop X n symb exch chart use_legacy_prompt (i + 1) rest w')"

definition proceed_on_any_failure ::
  "'w services \<Rightarrow> string list \<Rightarrow> string \<Rightarrow> string \<Rightarrow> string \<Rightarrow> bool \<Rightarrow> 'w world
     \<Rightarrow> string outcome \<times> 'w world" where
  "proceed_on_any_failure X keys symb exch chart_image_base64 use_legacy_prompt w =
     proceed_on_any_failure_loop X (int (length keys)) symb exch chart_image_base64
       use_legacy_prompt 0 keys w"

text \<open>
  A way to say that a run of keys fails: \<open>all_fail X mk img ks w\<close> calls the gateway
  for the keys \<open>ks\<close> in order, starting in \<open>w\<close>, each with the prompt \<open>mk\<close> builds in the
  state the call starts in; it is \<open>Some w'\<close> when every call fails and leaves \<open>w'\<close>,
  and \<open>None\<close> when one of them succeeds.
\<close>

fun all_fail ::
  "'w services \<Rightarrow> ('w world \<Rightarrow> string) \<Rightarrow> string option \<Rightarrow> string list \<Rightarrow> 'w world
     \<Rightarrow> 'w world option" where
  "all_fail X mk img [] w = Some w"
| "all_fail X mk img (k # ks) w =
     (case analyze_with_gemini_api X k (mk w) img w of
        (Inl e, w') \<Rightarrow> all_fail X mk img ks w'
      | (Inr t, w') \<Rightarrow> None)"

section \<open>Analysis orchestrator: \<open>analyze_stock\<close>\<close>

record StockAnalysisResponse =
  symbol :: string
  exchange :: string
  chart_image :: string
  analysis :: string
  fundamental_analysis :: string
  sentiment_analysis :: string
  technical_analysis :: string
  recommendations :: string
  timestamp :: string

definition section_names :: "string list" where
  "section_names = [''Fundamental'', ''Sentiment'', ''Technical'', ''Recommendations'']"

definition unavailable :: "string \<Rightarrow> string" where
  "unavailable name =
     sym_warning @ '' '' @ name @ '' analysis temporarily unavailable. Please try again.''"

text \<open>
  \<open>asyncio.gather(..., return_exceptions=True)\<close> runs the four section coroutines as
  tasks of one event loop. A task gives up control at each \<open>await\<close> of a gateway call,
  so the calls of the four tasks interleave; \<open>gather\<close> waits for all four and puts the
  outcome of each task, value or exception, at the place of its coroutine.

  In the model a task is either still in its key loop, at index \<open>i\<close> with the keys
  left, or finished with its outcome. \<open>section_turn\<close> is one turn of a task: one
  round of the loop of its section function, hence at most one gateway call, which acts
  on the outside world at that instant. A schedule is a list of task numbers; each entry
  gives one turn to that task (an entry for a finished task, or beyond the last task,
  changes nothing). The tasks that the schedule leaves in their loop are then run to
  their end in the order they were passed. Every order in which the gateway calls of the
  four tasks can follow one another is the order of some schedule; the empty schedule
  runs the four section functions one after the other.
\<close>

datatype section_task = Running int "string list" | Finished "string option outcome"

fun section_turn ::
  "'w services \<Rightarrow> int \<Rightarrow> string \<Rightarrow> string option \<Rightarrow> section_task \<Rightarrow> 'w world
     \<Rightarrow> section_task \<times> 'w world" where
  "section_turn X n prompt img (Finished r) w = (Finished r, w)"
| "section_turn X n prompt img (Running i []) w = (Finished (Returned None), w)"
| "section_turn X n prompt img (Running i (api_key # rest)) w =
     (case analyze_with_gemini_api X api_key prompt img w of
        (Inr result, w') \<Rightarrow> (Finished (Returned (Some result)), w')
      | (Inl e, w') \<Rightarrow>
          if i = n - 1 then
            (Finished (Raised \<lparr>status_code = 503,
                               detail = get_user_friendly_error (unicode_lower X) e\<rparr>), w')
          else (Running (i + 1) rest, w'))"

fun run_schedule ::
  "'w services \<Rightarrow> int \<Rightarrow> string \<Rightarrow> string \<Rightarrow> string \<Rightarrow> nat list
     \<Rightarrow> (AnalysisSection \<times> section_task) list \<Rightarrow> 'w world
     \<Rightarrow> (AnalysisSection \<times> section_task) list \<times> 'w world" where
  "run_schedule X n symb exch chart [] tasks w = (tasks, w)"
| "run_schedule X n symb exch chart (j # schedule) tasks w =
     (if j < length tasks then
        (case tasks ! j of
           (sec, t) \<Rightarrow>
             (case section_turn X n (section_prompt X sec symb exch) (section_image sec chart)
                     t w of
                (t', w') \<Rightarrow>
                  run_schedule X n symb exch chart schedule (tasks[j := (sec, t')]) w'))
      else run_schedule X n symb exch chart schedule tasks w)"

fun finish_tasks ::
  "'w services \<Rightarrow> int \<Rightarrow> string \<Rightarrow> string \<Rightarrow> string
     \<Rightarrow> (AnalysisSection \<times> section_task) list \<Rightarrow> 'w world
     \<Rightarrow> string option outcome list \<times> 'w world" where
  "finish_tasks X n symb exch chart [] w = ([], w)"
| "finish_tasks X n symb exch chart ((sec, Finished r) # rest) w =
     (case finish_tasks X n symb exch chart rest w of
        (rs, w') \<Rightarrow> (r # rs, w'))"
| "finish_tasks X n symb exch chart ((sec, Running i ks) # rest) w =
     (case api_key_loop X n (section_prompt X sec symb exch) (section_image sec chart) i ks w of
        (r, w1) \<Rightarrow>
          (case finish_tasks X n symb exch chart rest w1 of
             (rs, w2) \<Rightarrow> (r # rs, w2)))"

definition gather_sections ::
  "'w services \<Rightarrow> string list \<Rightarrow> string \<Rightarrow> string \<Rightarrow> string \<Rightarrow> nat list \<Rightarrow> 'w world
     \<Rightarrow> string option outcome list \<times> 'w world" where
  "gather_sections X keys symb exch chart_image_base64 schedule w =
     (let n = int (length keys);
          tasks = map (\<lambda>sec. (sec, Running 0 keys))
                    [Fundamental, Sentiment, Technical, Recommendations]
      in case run_schedule X n symb exch chart_image_base64 schedule tasks w of
           (tasks', w1) \<Rightarrow> finish_tasks X n symb exch chart_image_base64 tasks' w1)"

text \<open>
  The loop of lines 859 to 863: an outcome that is an exception is replaced by the
  placeholder text of its section; a returned value (a text, or \<open>None\<close>) is kept.
\<close>

fun replace_failed :: "nat \<Rightarrow> string option outcome list \<Rightarrow> string option list" where
  "replace_failed i [] = []"
| "replace_failed i (a # rest) =
     (case a of
        Raised e \<Rightarrow> Some (unavailable (section_names ! i))
      | Returned v \<Rightarrow> v) # replace_failed (i + 1) rest"

definition newline :: string where
  "newline = [CHR 0x0A]"

text \<open>
  The legacy summary text; its first two arguments are \<open>symbol.upper()\<close> and
  \<open>exchange.upper()\<close>, the third the clock reading.
\<close>

definition legacy_analysis :: "string \<Rightarrow> string \<Rightarrow> string \<Rightarrow> string" where
  "legacy_analysis symbol_upper exchange_upper now =
     sym_chart @ '' Stock Analysis Report'' @ newline @ newline @
     sym_pin @ '' Symbol: '' @ symbol_upper @ newline @
     sym_calendar @ '' Timeframe: Multi-Section Analysis'' @ newline @
     sym_magnifier @ '' Exchange: '' @ exchange_upper @ newline @ newline @
     ''This is a comprehensive multi-section analysis. Please use the individual sections (Fundamental, Sentiment, Technical, Recommendations) for detailed insights.'' @
     newline @ newline @ ''Generated: '' @ now"

text \<open>
  \<open>server.py\<close>, lines 821 to 899. A failure of the image step leaves as the
  \<open>HTTPException\<close> it is. The response model declares the four section fields as
  strings, so building it from a section value \<open>None\<close> fails with a validation error,
  which the last \<open>except\<close> clause turns into status 500 with the classified text.
  \<open>Returned\<close> is the HTTP success (status 200 with the response as its body). The
  schedule is the order in which the event loop lets the section tasks take their turns.
\<close>

definition analyze_stock ::
  "'w services \<Rightarrow> string list \<Rightarrow> string \<Rightarrow> string \<Rightarrow> UploadFile \<Rightarrow> nat list \<Rightarrow> 'w world
     \<Rightarrow> StockAnalysisResponse outcome \<times> 'w world" where
  "analyze_stock X keys symb exch image_file schedule w =
     (case process_uploaded_image image_file of
        Raised e \<Rightarrow> (Raised e, w)
      | Returned chart_image_base64 \<Rightarrow>
          (let (results, w') = gather_sections X keys symb exch chart_image_base64 schedule w;
               analyses = replace_failed 0 results
           in case analyses of
                [Some fundamental, Some sentiment, Some technical, Some recommended] \<Rightarrow>
                  (Returned
                     \<lparr>symbol = str_upper X symb,
                      exchange = str_upper X exch,
                      chart_image = ''data:image/png;base64,'' @ chart_image_base64,
                      analysis = legacy_analysis (str_upper X symb) (str_upper X exch)
                                   (strftime_now X (service w')),
                      fundamental_analysis = fundamental,
                      sentiment_analysis = sentiment,
                      technical_analysis = technical,
                      recommendations = recommended,
                      timestamp = isoformat_now X (service w')\<rparr>, w')
              | _ \<Rightarrow>
                  (Raised \<lparr>status_code = 500,
                           detail = get_user_friendly_error (unicode_lower X)
                                      (validation_error_str X analyses)\<rparr>,
                   w')))"

text \<open>
  A task is on track, for a chain of \<open>n\<close> keys, when it has finished with a text or
  an exception, or is in its loop with a key left and its index in step with the keys
  left.
\<close>

fun on_track :: "int \<Rightarrow> section_task \<Rightarrow> bool" where
  "on_track n (Finished r) = (r \<noteq> Returned None)"
| "on_track n (Running i ks) = (ks \<noteq> [] \<and> i + int (length ks) = n)"

section \<open>A scripted service for concrete runs\<close>

text \<open>
  A stand-in for the outside world, used to run the functions above on concrete
  inputs. Its state counts the calls. A key that begins with \<open>bad\<close> is answered with
  a 503 error, the key \<open>revoked\<close> with a 401 error, a prompt that begins with
  \<open>technical\<close> with a 429 error, and every other call with a report. The prompt
  templates are short texts that begin with the name of their section. Its upper-case
  function changes the ASCII letters only, and its lower-case table leaves every code
  point outside ASCII as it is; the concrete runs use ASCII texts and the Kelvin sign.
\<close>

definition scripted_send :: "string \<Rightarrow> UserMessage \<Rightarrow> nat \<Rightarrow> (string + string) \<times> nat" where
  "scripted_send api_key m s =
     (if prefix ''bad'' api_key then (Inl ''503 Service Unavailable'', Suc s)
      else if api_key = ''revoked'' then (Inl ''401 Unauthorized'', Suc s)
      else if prefix ''technical'' (msg_text m) then (Inl ''429 rate limit reached'', Suc s)
      else (Inr (''report by '' @ api_key), Suc s))"

definition scripted_upper_char :: "char \<Rightarrow> char" where
  "scripted_upper_char c =
     (let n = (of_char c :: nat) in if 97 \<le> n \<and> n \<le> 122 then char_of (n - 32) else c)"

definition keep_table :: lower_table where
  "keep_table pre q post = q"

definition scripted :: "nat services" where
  "scripted =
     \<lparr>send_message = scripted_send,
      strftime_now = (\<lambda>s. ''2025-01-01 09:30:00''),
      isoformat_now = (\<lambda>s. ''2025-01-01T09:30:00''),
      validation_error_str = (\<lambda>vs. ''1 validation error for StockAnalysisResponse''),
      str_upper = map scripted_upper_char,
      unicode_lower = keep_table,
      fundamental_prompt = (\<lambda>s e. ''fundamental '' @ s @ '' '' @ e),
      sentiment_prompt = (\<lambda>s e. ''sentiment '' @ s @ '' '' @ e),
      technical_prompt = (\<lambda>s. ''technical '' @ s),
      recommendations_prompt = (\<lambda>s e. ''recommendations '' @ s @ '' '' @ e),
      legacy_report_prompt = (\<lambda>s e now. ''legacy report '' @ s @ '' '' @ e @ '' '' @ now),
      report_prompt = (\<lambda>s e. ''report '' @ s @ '' '' @ e)\<rparr>"

definition start :: "nat world" where
  "start = \<lparr>service = 0, calls = []\<rparr>"

section \<open>Base64 round trip\<close>

lemma b64_value_char: "n < 64 \<Longrightarrow> b64_value (b64_char n) = Some n"
proof -
  have "\<forall>n \<in> set [0..<64]. b64_value (b64_char n) = Some n" by code_simp
  then show "n < 64 \<Longrightarrow> b64_value (b64_char n) = Some n" by simp
qed

lemma b64_value_char_mod: "b64_value (b64_char n) = Some (n mod 64)"
  using b64_value_char[of "n mod 64"] by (simp add: b64_char_def)

lemma b64_char_not_pad: "b64_char n \<noteq> CHR ''=''"
proof -
  have "\<forall>n \<in> set [0..<64]. b64_char n \<noteq> CHR ''=''" by code_simp
  then have "b64_char (n mod 64) \<noteq> CHR ''=''" by simp
  then show ?thesis by (simp add: b64_char_def)
qed

lemma unat8: "unat (a :: byte) < 256"
  using unsigned_less[of a, where 'a = nat] by simp

lemma digits_recompose:
  fixes n :: nat
  assumes "n < 16777216"
  shows "((n div 262144 mod 64 * 64 + n div 4096 mod 64) * 64 + n div 64 mod 64) * 64 + n mod 64 = n"
proof -
  have a: "n div 4096 = n div 64 div 64" by (simp add: div_mult2_eq)
  have b: "n div 262144 = n div 64 div 64 div 64" by (simp add: div_mult2_eq)
  have c: "n div 262144 mod 64 = n div 262144" using assms by simp
  have d: "\<And>m::nat. m div 64 * 64 + m mod 64 = m" by simp
  show ?thesis unfolding c unfolding a b by (simp only: d)
qed

lemma b64_number_group:
  "n < 16777216 \<Longrightarrow>
   b64_number (b64_char (n div 262144)) (b64_char (n div 4096)) (b64_char (n div 64)) (b64_char n) = Some n"
  by (simp only: b64_number_def b64_value_char_mod digits_recompose prod.case option.case)

lemma div1: "b < 256 \<Longrightarrow> c < 256 \<Longrightarrow> (a * 65536 + b * 256 + c) div 65536 = (a::nat)"
  by simp

lemma div2: "c < 256 \<Longrightarrow> (a * 65536 + b * 256 + c) div 256 = (a * 256 + b :: nat)"
  by simp

lemma w256: "(a :: byte) * 256 = 0"
proof -
  have "(256 :: byte) = 0" by simp
  then show ?thesis by (simp only: mult_zero_right)
qed

lemma w65536: "(a :: byte) * 65536 = 0"
proof -
  have "(65536 :: byte) = 0" by simp
  then show ?thesis by (simp only: mult_zero_right)
qed

lemma b64_bytes3: "b64_bytes (unat a * 65536 + unat b * 256 + unat c) = [a, b, c]"
  by (simp add: b64_bytes_def div1 div2 unat8 w256 w65536)

lemma n3_bound: "unat (a::byte) * 65536 + unat (b::byte) * 256 + unat (c::byte) < 16777216"
  using unat8[of a] unat8[of b] unat8[of c] by linarith

lemma b64_char_zero: "n mod 64 = 0 \<Longrightarrow> b64_char n = CHR ''A''"
  by (simp add: b64_char_def b64_alphabet_def)

lemma b64_number_pad1:
  assumes "n < 16777216" "n mod 64 = 0"
  shows "b64_number (b64_char (n div 262144)) (b64_char (n div 4096)) (b64_char (n div 64)) (CHR ''A'') = Some n"
  using b64_number_group[OF assms(1)] b64_char_zero[OF assms(2)] by simp

lemma b64_number_pad2:
  assumes "n < 16777216" "n mod 64 = 0" "n div 64 mod 64 = 0"
  shows "b64_number (b64_char (n div 262144)) (b64_char (n div 4096)) (CHR ''A'') (CHR ''A'') = Some n"
  using b64_number_pad1[OF assms(1,2)] b64_char_zero[OF assms(3)] by simp

lemma n2_facts:
  "unat (a::byte) * 65536 + unat (b::byte) * 256 < 16777216"
  "(unat (a::byte) * 65536 + unat (b::byte) * 256) mod 64 = 0"
  using n3_bound[of a b 0] by simp_all

lemma n1_facts:
  "unat (a::byte) * 65536 < 16777216"
  "(unat (a::byte) * 65536) mod 64 = 0"
  "(unat (a::byte) * 65536) div 64 mod 64 = 0"
  using n3_bound[of a 0 0] by simp_all

lemma b64_bytes2: "take 2 (b64_bytes (unat a * 65536 + unat b * 256)) = [a, b]"
  using b64_bytes3[of a b 0] by simp

lemma b64_bytes1: "take 1 (b64_bytes (unat a * 65536)) = [a]"
  using b64_bytes3[of a 0 0] by simp

lemma b64decode_group:
  assumes "n < 16777216" "b64decode r = Some bs"
  shows "b64decode (b64_group n @ r) = Some (b64_bytes n @ bs)"
  using assms(2) by (simp add: b64_group_def b64_char_not_pad b64_number_group[OF assms(1)])

lemma b64decode_pad1:
  assumes "n < 16777216" "n mod 64 = 0"
  shows "b64decode (take 3 (b64_group n) @ ''='') = Some (take 2 (b64_bytes n))"
  by (simp add: b64_group_def b64_char_not_pad b64_number_pad1[OF assms])

lemma b64decode_pad2:
  assumes "n < 16777216" "n mod 64 = 0" "n div 64 mod 64 = 0"
  shows "b64decode (take 2 (b64_group n) @ ''=='') = Some (take 1 (b64_bytes n))"
  by (simp add: b64_group_def b64_char_not_pad b64_number_pad2[OF assms])

lemma b64_roundtrip: "b64decode (b64encode bs) = Some bs"
proof (induction bs rule: b64encode.induct)
  case (1 a b c rest)
  have "b64decode (b64encode (a # b # c # rest)) =
        Some (b64_bytes (unat a * 65536 + unat b * 256 + unat c) @ rest)"
    by (simp only: b64encode.simps b64decode_group[OF n3_bound 1])
  then show ?case by (simp only: b64_bytes3) simp
next
  case (2 a b)
  show ?case by (simp only: b64encode.simps b64decode_pad1[OF n2_facts] b64_bytes2)
next
  case (3 a)
  show ?case by (simp only: b64encode.simps b64decode_pad2[OF n1_facts] b64_bytes1)
next
  case 4
  show ?case by simp
qed

section \<open>Properties of the image ingestor\<close>

lemma msgs_neq:
  "msg_too_large \<noteq> msg_invalid_type" "msg_too_large \<noteq> msg_empty" "msg_invalid_type \<noteq> msg_empty"
  "msg_invalid_type \<noteq> msg_too_large" "msg_empty \<noteq> msg_too_large" "msg_empty \<noteq> msg_invalid_type"
  by (simp_all add: msg_too_large_def msg_invalid_type_def msg_empty_def sym_folder_def sym_picture_def)

text \<open>
  Claim C3. A payload of at least one and at most \<open>10 * 1024 * 1024\<close> bytes whose
  declared content type begins with \<open>image/\<close> is accepted: the ingestor returns the
  base64 text of the bytes, and decoding that text gives the bytes back.
\<close>

theorem ingestor_roundtrip:
  assumes "0 < length (file_content f)" and "length (file_content f) \<le> 10 * 1024 * 1024"
    and "content_type f = Some t" and "prefix ''image/'' t"
  shows "process_uploaded_image f = Returned (b64encode (file_content f)) \<and>
         b64decode (b64encode (file_content f)) = Some (file_content f)"
proof -
  have "t \<noteq> []" using assms(4) by auto
  then have "process_uploaded_image f = Returned (b64encode (file_content f))"
    using assms by (simp add: process_uploaded_image_def max_size_def)
  then show ?thesis by (simp add: b64_roundtrip)
qed

theorem ingestor_roundtrip_witness:
  "process_uploaded_image
     \<lparr>filename = Some ''chart.png'', content_type = Some ''image/png'',
      file_content = [0x89, 0x50, 0x4E, 0x47]\<rparr> = Returned ''iVBORw=='' \<and>
   b64decode ''iVBORw=='' = Some [0x89, 0x50, 0x4E, 0x47]"
proof -
  let ?f = "\<lparr>filename = Some ''chart.png'', content_type = Some ''image/png'',
      file_content = [0x89, 0x50, 0x4E, 0x47]\<rparr>"
  have enc: "b64encode [0x89, 0x50, 0x4E, 0x47 :: byte] = ''iVBORw==''"
    by (simp add: b64_group_def b64_char_def b64_alphabet_def)
  have sel: "file_content ?f = [0x89, 0x50, 0x4E, 0x47]" by simp
  have "process_uploaded_image ?f = Returned (b64encode (file_content ?f)) \<and>
        b64decode (b64encode (file_content ?f)) = Some (file_content ?f)"
    by (rule ingestor_roundtrip[where t = "''image/png''"]) simp_all
  then show ?thesis by (simp only: sel enc)
qed

text \<open>
  Claim C5. The ingestor fails with the oversize error (status 400 and the
  too-large message) exactly when the payload has more than \<open>10 * 1024 * 1024\<close>
  bytes: a payload of exactly that many bytes is not rejected for its size, every
  longer one is.
\<close>

theorem too_large_iff:
  "(process_uploaded_image f = Raised \<lparr>status_code = 400, detail = msg_too_large\<rparr>) =
   (10 * 1024 * 1024 < length (file_content f))"
  by (simp add: process_uploaded_image_def max_size_def msgs_neq Let_def split: option.split)

theorem too_large_iff_witness:
  "process_uploaded_image
     \<lparr>filename = Some ''big.png'', content_type = Some ''image/png'',
      file_content = replicate (10 * 1024 * 1024 + 1) 0\<rparr> =
     Raised \<lparr>status_code = 400, detail = msg_too_large\<rparr> \<and>
   process_uploaded_image
     \<lparr>filename = Some ''big.png'', content_type = Some ''image/png'',
      file_content = replicate (10 * 1024 * 1024) 0\<rparr> \<noteq>
     Raised \<lparr>status_code = 400, detail = msg_too_large\<rparr>"
  using too_large_iff[of "\<lparr>filename = Some ''big.png'', content_type = Some ''image/png'',
      file_content = replicate (10 * 1024 * 1024 + 1) 0\<rparr>"]
    too_large_iff[of "\<lparr>filename = Some ''big.png'', content_type = Some ''image/png'',
      file_content = replicate (10 * 1024 * 1024) 0\<rparr>"]
  by simp

text \<open>
  Claim C4 as stated fails: an empty payload declared as \<open>text/plain\<close> is rejected by
  the content type check, which the source runs before the emptiness check.
\<close>

theorem empty_payload_counterexample:
  "process_uploaded_image
     \<lparr>filename = Some ''notes.txt'', content_type = Some ''text/plain'', file_content = []\<rparr> =
     Raised \<lparr>status_code = 400, detail = msg_invalid_type\<rparr> \<and>
   msg_invalid_type \<noteq> msg_empty"
  by (simp add: process_uploaded_image_def max_size_def msgs_neq)

text \<open>
  The stand-alone handler sends status 200 and ends the headers before it checks
  anything, so status 200 is what the client receives on every path; the status line
  400 of the error path arrives after the headers.
\<close>

lemma upload_image_status_received:
  "status_received (upload_image_do_POST h form) = Some 200"
  by (simp add: upload_image_do_POST_def)

lemma upload_image_error_body:
  "upload_image_checks h form = Inl e \<Longrightarrow>
   bodies_written (upload_image_do_POST h form) = [UploadError e]"
  by (simp add: upload_image_do_POST_def)

text \<open>
  Claim C4, amended. An empty payload always fails with status 400; the message is the
  empty-file message when the declared content type begins with \<open>image/\<close>, and the
  invalid-type message when no type is declared or the type is another one. The
  stand-alone handler of \<open>api/upload-image.py\<close>, which has no content type check,
  writes for every empty file the error envelope with its own empty-file message.
\<close>

theorem empty_payload_by_type:
  assumes "length (file_content f) = 0"
  shows "process_uploaded_image f =
           Raised \<lparr>status_code = 400,
                   detail = (case content_type f of
                               None \<Rightarrow> msg_invalid_type
                             | Some t \<Rightarrow> if prefix ''image/'' t then msg_empty
                                        else msg_invalid_type)\<rparr> \<and>
         (sublist ''multipart/form-data'' h \<and> form ''file'' = Some item \<and>
          item_filename item = Some name \<and> name \<noteq> [] \<and> item_data item = []
          \<longrightarrow> bodies_written (upload_image_do_POST h form) =
                [UploadError ([CHR 0xF0, CHR 0x9F, CHR 0x93, CHR 0x81] @
                              '' The uploaded file is empty'')])"
proof -
  have "prefix ''image/'' t \<Longrightarrow> t \<noteq> []" for t by auto
  then have server: "process_uploaded_image f =
           Raised \<lparr>status_code = 400,
                   detail = (case content_type f of
                               None \<Rightarrow> msg_invalid_type
                             | Some t \<Rightarrow> if prefix ''image/'' t then msg_empty
                                        else msg_invalid_type)\<rparr>"
    using assms
    by (auto simp: process_uploaded_image_def max_size_def Let_def split: option.split)
  have "upload_image_checks h form = Inl msg_file_empty"
    if "sublist ''multipart/form-data'' h" "form ''file'' = Some item"
      "item_filename item = Some name" "name \<noteq> []" "item_data item = []"
    using that by (simp add: upload_image_checks_def)
  then have "bodies_written (upload_image_do_POST h form) =
                [UploadError ([CHR 0xF0, CHR 0x9F, CHR 0x93, CHR 0x81] @
                              '' The uploaded file is empty'')]"
    if "sublist ''multipart/form-data'' h" "form ''file'' = Some item"
      "item_filename item = Some name" "name \<noteq> []" "item_data item = []"
    using that upload_image_error_body[of h form msg_file_empty]
    by (simp add: msg_file_empty_def sym_folder_def)
  with server show ?thesis by blast
qed

theorem empty_payload_by_type_witness:
  "process_uploaded_image
     \<lparr>filename = Some ''empty.png'', content_type = Some ''image/png'', file_content = []\<rparr> =
     Raised \<lparr>status_code = 400, detail = msg_empty\<rparr> \<and>
   bodies_written (upload_image_do_POST ''multipart/form-data; boundary=x''
     [''file'' \<mapsto> \<lparr>item_filename = Some ''empty.png'', item_data = []\<rparr>]) =
     [UploadError ([CHR 0xF0, CHR 0x9F, CHR 0x93, CHR 0x81] @ '' The uploaded file is empty'')]"
proof -
  have sub: "sublist ''multipart/form-data'' ''multipart/form-data; boundary=x''"
    by (rule prefix_imp_sublist) simp
  show ?thesis
    using empty_payload_by_type[of
        "\<lparr>filename = Some ''empty.png'', content_type = Some ''image/png'', file_content = []\<rparr>"
        "''multipart/form-data; boundary=x''"
        "[''file'' \<mapsto> \<lparr>item_filename = Some ''empty.png'', item_data = []\<rparr>]"
        "\<lparr>item_filename = Some ''empty.png'', item_data = []\<rparr>" "''empty.png''"] sub
    by simp
qed

text \<open>
  Claim C6 as stated fails: a payload with no declared content type is rejected by the
  media type check; and a payload over the size limit whose declared type is not an
  image type fails with the oversize error, not with the invalid-type error.
\<close>

theorem media_type_counterexample:
  "process_uploaded_image
     \<lparr>filename = Some ''chart.png'', content_type = None, file_content = [0x89]\<rparr> =
     Raised \<lparr>status_code = 400, detail = msg_invalid_type\<rparr> \<and>
   process_uploaded_image
     \<lparr>filename = Some ''notes.txt'', content_type = Some ''text/plain'',
      file_content = replicate (10 * 1024 * 1024 + 1) 0\<rparr> =
     Raised \<lparr>status_code = 400, detail = msg_too_large\<rparr> \<and>
   msg_too_large \<noteq> msg_invalid_type"
  by (simp add: process_uploaded_image_def max_size_def msgs_neq)

text \<open>
  Claim C6, amended. For a payload within the size limit, the ingestor fails with the
  invalid-type error exactly when no content type is declared or the declared type
  does not begin with \<open>image/\<close> (the empty string included).
\<close>

theorem media_type_iff:
  assumes "length (file_content f) \<le> 10 * 1024 * 1024"
  shows "(process_uploaded_image f = Raised \<lparr>status_code = 400, detail = msg_invalid_type\<rparr>) =
         (case content_type f of None \<Rightarrow> True | Some t \<Rightarrow> \<not> prefix ''image/'' t)"
proof -
  have "prefix ''image/'' t \<Longrightarrow> t \<noteq> []" for t by auto
  then show ?thesis
    using assms
    by (auto simp: process_uploaded_image_def max_size_def msgs_neq Let_def split: option.split if_splits)
qed

theorem media_type_iff_witness:
  "process_uploaded_image
     \<lparr>filename = Some ''notes.txt'', content_type = Some ''text/plain'', file_content = [0x68, 0x69]\<rparr> =
     Raised \<lparr>status_code = 400, detail = msg_invalid_type\<rparr> \<and>
   process_uploaded_image
     \<lparr>filename = Some ''chart.png'', content_type = Some ''image/png'', file_content = [0x89]\<rparr> \<noteq>
     Raised \<lparr>status_code = 400, detail = msg_invalid_type\<rparr>"
  using media_type_iff[of "\<lparr>filename = Some ''notes.txt'', content_type = Some ''text/plain'', file_content = [0x68, 0x69]\<rparr>"]
   media_type_iff[of "\<lparr>filename = Some ''chart.png'', content_type = Some ''image/png'', file_content = [0x89]\<rparr>"]
  by simp

section \<open>Properties of the error classifier\<close>

lemma lower_char_digit_iff: "is_digit (lower_char c) = is_digit c"
  by (auto simp: lower_char_def is_digit_def Let_def)

lemma lower_char_digit: "is_digit c \<Longrightarrow> lower_char c = c"
  by (auto simp: lower_char_def is_digit_def Let_def)

lemma digit_ascii: "is_digit c \<Longrightarrow> is_ascii c"
  by (simp add: is_digit_def is_ascii_def)

lemma continuation_no_digit: "is_continuation c \<Longrightarrow> \<not> is_digit c"
  by (simp add: is_continuation_def is_digit_def)

lemma code_point_no_digit:
  assumes "non_ascii_table U" and "\<not> is_ascii c"
  shows "lower_code_point U pre (c # takeWhile is_continuation rest) post \<noteq> [] \<and>
         (\<forall>x \<in> set (lower_code_point U pre (c # takeWhile is_continuation rest) post). \<not> is_digit x)"
proof -
  let ?q = "c # takeWhile is_continuation rest"
  have q: "?q \<noteq> [] \<and> (\<forall>x \<in> set ?q. \<not> is_ascii x)"
    using assms(2) by (auto dest!: set_takeWhileD simp: is_continuation_def is_ascii_def)
  with assms(1) have "U pre ?q post \<noteq> [] \<and> (\<forall>x \<in> set (U pre ?q post). \<not> is_ascii x)"
    unfolding non_ascii_table_def by blast
  then have u: "U pre ?q post \<noteq> [] \<and> (\<forall>x \<in> set (U pre ?q post). \<not> is_digit x)"
    using digit_ascii by blast
  show ?thesis
    unfolding lower_code_point_def using u by (auto simp: is_digit_def)
qed

lemma sublist_skip:
  assumes "p \<noteq> []" "set p \<inter> set B = {}"
  shows "sublist p (B @ L) = sublist p L"
proof
  assume "sublist p L"
  then show "sublist p (B @ L)" by (simp add: sublist_append)
next
  assume "sublist p (B @ L)"
  then consider "sublist p B" | "sublist p L"
    | xs1 xs2 where "p = xs1 @ xs2" "suffix xs1 B" "prefix xs2 L"
    unfolding sublist_append by blast
  then show "sublist p L"
  proof cases
    case 1
    then have "set p \<subseteq> set B" by (rule set_mono_sublist)
    with assms show ?thesis by (cases p) auto
  next
    case 2
    then show ?thesis .
  next
    case 3
    from 3(2) have "set xs1 \<subseteq> set B" by (rule set_mono_suffix)
    moreover from 3(1) have "set xs1 \<subseteq> set p" by auto
    ultimately have "xs1 = []" using assms(2) by (cases xs1) auto
    with 3 show ?thesis by auto
  qed
qed

lemma prefix_digits_lower:
  "non_ascii_table U \<Longrightarrow> \<forall>c \<in> set p. is_digit c \<Longrightarrow>
   prefix p (lower_from U pre s) = prefix p s"
proof (induction U pre s arbitrary: p rule: lower_from.induct)
  case (1 U pre)
  show ?case by simp
next
  case (2 U pre c rest)
  show ?case
  proof (cases p)
    case Nil
    then show ?thesis by simp
  next
    case (Cons d p')
    note U = "2.prems"(1)
    from Cons "2.prems"(2) have d: "is_digit d" and p': "\<forall>c \<in> set p'. is_digit c" by simp_all
    show ?thesis
    proof (cases "is_ascii c")
      case True
      have "(d = lower_char c) = (d = c)"
        using d lower_char_digit_iff[of c] lower_char_digit[of c] by metis
      moreover have "prefix p' (lower_from U (pre @ [c]) rest) = prefix p' rest"
        using "2.IH"(1)[OF True U p'] .
      ultimately show ?thesis using True Cons by simp
    next
      case False
      let ?q = "c # takeWhile is_continuation rest"
      let ?B = "lower_code_point U pre ?q (dropWhile is_continuation rest)"
      from code_point_no_digit[OF U False, of pre rest "dropWhile is_continuation rest"]
      have ne: "?B \<noteq> []" and nd: "\<forall>x \<in> set ?B. \<not> is_digit x" by blast+
      from ne obtain x B' where B1: "?B = x # B'" by (cases ?B) simp_all
      from nd have "\<not> is_digit x" unfolding B1 by simp
      with B1 have B: "?B = x # B'" "\<not> is_digit x" by blast+
      have "d \<noteq> c" using d False digit_ascii by blast
      moreover have "d \<noteq> x" using d B(2) by blast
      ultimately show ?thesis using False Cons B(1) by (simp add: Let_def)
    qed
  qed
qed

lemma sublist_digits_lower:
  "non_ascii_table U \<Longrightarrow> p \<noteq> [] \<Longrightarrow> \<forall>c \<in> set p. is_digit c \<Longrightarrow>
   sublist p (lower_from U pre s) = sublist p s"
proof (induction U pre s rule: lower_from.induct)
  case (1 U pre)
  show ?case by simp
next
  case (2 U pre c rest)
  note U = "2.prems"(1) and ne = "2.prems"(2) and dg = "2.prems"(3)
  show ?case
  proof (cases "is_ascii c")
    case True
    have ih: "sublist p (lower_from U (pre @ [c]) rest) = sublist p rest"
      using "2.IH"(1)[OF True U ne dg] .
    have "prefix p (lower_from U pre (c # rest)) = prefix p (c # rest)"
      using U dg by (rule prefix_digits_lower)
    then have "prefix p (lower_char c # lower_from U (pre @ [c]) rest) = prefix p (c # rest)"
      using True by simp
    then show ?thesis
      using True ih by (simp add: sublist_Cons_right)
  next
    case False
    let ?q = "c # takeWhile is_continuation rest"
    let ?post = "dropWhile is_continuation rest"
    let ?B = "lower_code_point U pre ?q ?post"
    have ih: "sublist p (lower_from U (pre @ ?q) ?post) = sublist p ?post"
      using "2.IH"(2)[OF False refl refl U ne dg] .
    have B: "set p \<inter> set ?B = {}"
      using code_point_no_digit[OF U False, of pre rest ?post] dg by blast
    have "\<not> is_digit x" if "x \<in> set ?q" for x
    proof (cases "x = c")
      case True
      with False digit_ascii show ?thesis by blast
    next
      case False
      with that have "x \<in> set (takeWhile is_continuation rest)" by simp
      then have "is_continuation x" by (auto dest: set_takeWhileD)
      then show ?thesis by (rule continuation_no_digit)
    qed
    with dg have q: "set p \<inter> set ?q = {}" by blast
    have split: "c # rest = ?q @ ?post" by simp
    have "sublist p (lower_from U pre (c # rest)) = sublist p (?B @ lower_from U (pre @ ?q) ?post)"
      using False by (simp add: Let_def)
    also have "\<dots> = sublist p (lower_from U (pre @ ?q) ?post)"
      using ne B by (rule sublist_skip)
    also have "\<dots> = sublist p ?post" by (rule ih)
    also have "\<dots> = sublist p (?q @ ?post)"
      using ne q by (rule sublist_skip[symmetric])
    also have "\<dots> = sublist p (c # rest)" by (simp only: split)
    finally show ?thesis .
  qed
qed

lemma numeric_patterns:
  assumes "non_ascii_table U"
  shows "sublist ''503'' (lower U s) = sublist ''503'' s"
    and "sublist ''401'' (lower U s) = sublist ''401'' s"
    and "sublist ''429'' (lower U s) = sublist ''429'' s"
  unfolding lower_def
  by (rule sublist_digits_lower[OF assms]; simp add: is_digit_def)+

lemma classify_refines:
  "non_ascii_table U \<Longrightarrow> get_user_friendly_error U s = classify_spec U s"
  by (simp add: get_user_friendly_error_def classify_spec_def classify_rules_def
      generic_message_def numeric_patterns Let_def
      msg_busy_def msg_auth_def msg_throttle_def msg_slow_def msg_connectivity_def
      msg_oversize_def msg_bad_format_def msg_generic_def
      sym_busy_def sym_lock_def sym_hourglass_def sym_stopwatch_def sym_globe_def
      sym_folder_def sym_picture_def sym_warning_def)

text \<open>
  Claim C7. The classifier is a total function. For every lower-case table that maps
  the code points outside ASCII (other than \<open>U+0130\<close> and \<open>U+212A\<close>, which the
  model writes out) to non-empty texts outside ASCII, as the Unicode table does, it
  agrees on every input with the ordered rule table of the specification, where every
  pattern is matched in the lower-cased text and the first matching rule wins. In
  particular: a text that contains \<open>503\<close> gets the busy message; a text that contains
  \<open>429\<close> and none of the patterns of the two rules before gets the throttle message;
  a text that no rule matches gets the generic message; and two texts with the same
  lower-case form get the same message.
\<close>

theorem classifier_first_match:
  assumes "non_ascii_table U"
  shows "get_user_friendly_error U s = classify_spec U s \<and>
   (sublist ''503'' s \<longrightarrow>
      get_user_friendly_error U s =
        [CHR 0xF0, CHR 0x9F, CHR 0x94, CHR 0x84] @
        '' The AI service is currently busy. Please try again in a few moments.'') \<and>
   (sublist ''429'' s \<and> \<not> sublist ''503'' s \<and> \<not> sublist ''overloaded'' (lower U s) \<and>
    \<not> sublist ''unavailable'' (lower U s) \<and> \<not> sublist ''401'' s \<and>
    \<not> sublist ''unauthorized'' (lower U s) \<longrightarrow>
      get_user_friendly_error U s =
        [CHR 0xE2, CHR 0x8F, CHR 0xB3] @
        '' Too many requests. Please wait a moment and try again.'') \<and>
   (list_all (\<lambda>(p, m). \<not> p (lower U s)) classify_rules \<longrightarrow>
      get_user_friendly_error U s =
        [CHR 0xE2, CHR 0x9A, CHR 0xA0, CHR 0xEF, CHR 0xB8, CHR 0x8F] @
        '' Something went wrong during analysis. Please try again or contact support.'') \<and>
   (lower U s = lower U t \<longrightarrow> get_user_friendly_error U s = get_user_friendly_error U t)"
proof -
  note r = classify_refines[OF assms]
  have 1: "sublist ''503'' s \<longrightarrow>
      get_user_friendly_error U s =
        [CHR 0xF0, CHR 0x9F, CHR 0x94, CHR 0x84] @
        '' The AI service is currently busy. Please try again in a few moments.''"
    by (simp add: get_user_friendly_error_def msg_busy_def sym_busy_def)
  have 2: "sublist ''429'' s \<and> \<not> sublist ''503'' s \<and> \<not> sublist ''overloaded'' (lower U s) \<and>
    \<not> sublist ''unavailable'' (lower U s) \<and> \<not> sublist ''401'' s \<and>
    \<not> sublist ''unauthorized'' (lower U s) \<longrightarrow>
      get_user_friendly_error U s =
        [CHR 0xE2, CHR 0x8F, CHR 0xB3] @
        '' Too many requests. Please wait a moment and try again.''"
    by (simp add: get_user_friendly_error_def Let_def msg_throttle_def sym_hourglass_def)
  have 3: "list_all (\<lambda>(p, m). \<not> p (lower U s)) classify_rules \<longrightarrow>
      get_user_friendly_error U s =
        [CHR 0xE2, CHR 0x9A, CHR 0xA0, CHR 0xEF, CHR 0xB8, CHR 0x8F] @
        '' Something went wrong during analysis. Please try again or contact support.''"
    by (simp add: r classify_spec_def classify_rules_def generic_message_def)
  have 4: "lower U s = lower U t \<longrightarrow> get_user_friendly_error U s = get_user_friendly_error U t"
    by (simp add: r classify_spec_def)
  show ?thesis using r 1 2 3 4 by blast
qed

lemma keep_table_non_ascii: "non_ascii_table keep_table"
  by (simp add: non_ascii_table_def keep_table_def)

theorem classifier_first_match_witness:
  "get_user_friendly_error keep_table ''Error 503: model is busy'' =
     [CHR 0xF0, CHR 0x9F, CHR 0x94, CHR 0x84] @
     '' The AI service is currently busy. Please try again in a few moments.'' \<and>
   get_user_friendly_error keep_table ''HTTP 429 Too Many Requests'' =
     [CHR 0xE2, CHR 0x8F, CHR 0xB3] @
     '' Too many requests. Please wait a moment and try again.'' \<and>
   get_user_friendly_error keep_table ''boom'' =
     [CHR 0xE2, CHR 0x9A, CHR 0xA0, CHR 0xEF, CHR 0xB8, CHR 0x8F] @
     '' Something went wrong during analysis. Please try again or contact support.'' \<and>
   get_user_friendly_error keep_table ''Read TIMEOUT'' =
     get_user_friendly_error keep_table ''read timeout'' \<and>
   get_user_friendly_error keep_table ''Read TIMEOUT'' =
     [CHR 0xE2, CHR 0x8F, CHR 0xB1, CHR 0xEF, CHR 0xB8, CHR 0x8F] @
     '' The analysis is taking longer than expected. Please try again.'' \<and>
   get_user_friendly_error keep_table
     (''NETWOR'' @ [CHR 0xE2, CHR 0x84, CHR 0xAA] @ '' down'') =
     [CHR 0xF0, CHR 0x9F, CHR 0x8C, CHR 0x90] @
     '' Network connectivity issue. Please check your internet connection.''"
proof -
  note T = classifier_first_match[OF keep_table_non_ascii]
  have h1: "sublist ''503'' ''Error 503: model is busy''" by code_simp
  have h2: "sublist ''429'' ''HTTP 429 Too Many Requests'' \<and>
    \<not> sublist ''503'' ''HTTP 429 Too Many Requests'' \<and>
    \<not> sublist ''overloaded'' (lower keep_table ''HTTP 429 Too Many Requests'') \<and>
    \<not> sublist ''unavailable'' (lower keep_table ''HTTP 429 Too Many Requests'') \<and>
    \<not> sublist ''401'' ''HTTP 429 Too Many Requests'' \<and>
    \<not> sublist ''unauthorized'' (lower keep_table ''HTTP 429 Too Many Requests'')" by code_simp
  have h3: "list_all (\<lambda>(p, m). \<not> p (lower keep_table ''boom'')) classify_rules" by code_simp
  have h4: "lower keep_table ''Read TIMEOUT'' = lower keep_table ''read timeout''" by code_simp
  have h5: "classify_spec keep_table (''NETWOR'' @ [CHR 0xE2, CHR 0x84, CHR 0xAA] @ '' down'') =
     [CHR 0xF0, CHR 0x9F, CHR 0x8C, CHR 0x90] @
     '' Network connectivity issue. Please check your internet connection.''" by code_simp
  from T[of "''Error 503: model is busy''"] h1
  have c1: "get_user_friendly_error keep_table ''Error 503: model is busy'' =
     [CHR 0xF0, CHR 0x9F, CHR 0x94, CHR 0x84] @
     '' The AI service is currently busy. Please try again in a few moments.''" by blast
  from T[of "''HTTP 429 Too Many Requests''"] h2
  have c2: "get_user_friendly_error keep_table ''HTTP 429 Too Many Requests'' =
     [CHR 0xE2, CHR 0x8F, CHR 0xB3] @
     '' Too many requests. Please wait a moment and try again.''" by blast
  from T[of "''boom''"] h3
  have c3: "get_user_friendly_error keep_table ''boom'' =
     [CHR 0xE2, CHR 0x9A, CHR 0xA0, CHR 0xEF, CHR 0xB8, CHR 0x8F] @
     '' Something went wrong during analysis. Please try again or contact support.''" by blast
  from T[of "''Read TIMEOUT''" "''read timeout''"] h4
  have c4: "get_user_friendly_error keep_table ''Read TIMEOUT'' =
     get_user_friendly_error keep_table ''read timeout''"
    by blast
  from T[of "''NETWOR'' @ [CHR 0xE2, CHR 0x84, CHR 0xAA] @ '' down''"] h5
  have c5: "get_user_friendly_error keep_table
     (''NETWOR'' @ [CHR 0xE2, CHR 0x84, CHR 0xAA] @ '' down'') =
     [CHR 0xF0, CHR 0x9F, CHR 0x8C, CHR 0x90] @
     '' Network connectivity issue. Please check your internet connection.''"
    by (simp only:)
  have h6: "classify_spec keep_table ''Read TIMEOUT'' =
     [CHR 0xE2, CHR 0x8F, CHR 0xB1, CHR 0xEF, CHR 0xB8, CHR 0x8F] @
     '' The analysis is taking longer than expected. Please try again.''" by code_simp
  from T[of "''Read TIMEOUT''"] h6
  have c6: "get_user_friendly_error keep_table ''Read TIMEOUT'' =
     [CHR 0xE2, CHR 0x8F, CHR 0xB1, CHR 0xEF, CHR 0xB8, CHR 0x8F] @
     '' The analysis is taking longer than expected. Please try again.''"
    by (simp only:)
  from c1 c2 c3 c4 c5 c6 show ?thesis by blast
qed

section \<open>Properties of the fallback executor\<close>

lemma gateway_calls:
  "analyze_with_gemini_api X k prompt img w = (r, w') \<Longrightarrow> map fst (calls w') = map fst (calls w) @ [k]"
  by (auto simp: analyze_with_gemini_api_def Let_def split: prod.splits)

lemma all_fail_calls:
  "all_fail X mk img ks w = Some w' \<Longrightarrow> map fst (calls w') = map fst (calls w) @ ks"
proof (induction ks arbitrary: w)
  case Nil
  then show ?case by simp
next
  case (Cons k ks)
  then show ?case
    by (auto split: prod.splits sum.splits dest!: gateway_calls)
qed

lemma api_key_loop_success:
  assumes "all_fail X (\<lambda>_. prompt) img ks w = Some w1"
    and "analyze_with_gemini_api X k prompt img w1 = (Inr t, w2)"
    and "i + int (length (ks @ k # rest)) = n"
  shows "api_key_loop X n prompt img i (ks @ k # rest) w = (Returned (Some t), w2)"
  using assms
proof (induction ks arbitrary: w i)
  case Nil
  then show ?case by simp
next
  case (Cons a ks)
  then show ?case by (auto split: prod.splits sum.splits)
qed

lemma api_key_loop_exhausted:
  assumes "all_fail X (\<lambda>_. prompt) img ks w = Some w1"
    and "analyze_with_gemini_api X k prompt img w1 = (Inl e, w2)"
    and "i + int (length (ks @ [k])) = n"
  shows "api_key_loop X n prompt img i (ks @ [k]) w =
           (Raised \<lparr>status_code = 503, detail = get_user_friendly_error (unicode_lower X) e\<rparr>, w2)"
  using assms
proof (induction ks arbitrary: w i)
  case Nil
  then show ?case by simp
next
  case (Cons a ks)
  then show ?case by (auto split: prod.splits sum.splits)
qed

lemma fallback_loop_success:
  assumes "all_fail X (fallback_prompt X symb exch lg) (Some chart) ks w = Some w1"
    and "analyze_with_gemini_api X k (fallback_prompt X symb exch lg w1) (Some chart) w1 = (Inr t, w2)"
    and "i + int (length (ks @ k # rest)) = n"
  shows "analyze_with_fallback_loop X n symb exch chart lg i (ks @ k # rest) w = (Returned t, w2)"
  using assms
proof (induction ks arbitrary: w i)
  case Nil
  then show ?case by simp
next
  case (Cons a ks)
  then show ?case by (auto split: prod.splits sum.splits)
qed

lemma fallback_loop_exhausted:
  assumes "all_fail X (fallback_prompt X symb exch lg) (Some chart) ks w = Some w1"
    and "analyze_with_gemini_api X k (fallback_prompt X symb exch lg w1) (Some chart) w1 = (Inl e, w2)"
    and "i + int (length (ks @ [k])) = n"
  shows "analyze_with_fallback_loop X n symb exch chart lg i (ks @ [k]) w =
           (Raised \<lparr>status_code = 503, detail = get_user_friendly_error (unicode_lower X) e\<rparr>, w2)"
  using assms
proof (induction ks arbitrary: w i)
  case Nil
  then show ?case by simp
next
  case (Cons a ks)
  then show ?case by (auto split: prod.splits sum.splits)
qed

lemma fallback_loop_eq:
  "analyze_with_fallback_loop X n symb exch chart lg i ks w =
   proceed_on_any_failure_loop X n symb exch chart lg i ks w"
  by (induction ks arbitrary: i w) (auto split: prod.splits sum.splits)

lemma calls_after:
  assumes "all_fail X mk img ks w = Some w1"
    and "analyze_with_gemini_api X k (mk w1) img w1 = (r, w2)"
  shows "map fst (calls w2) = map fst (calls w) @ ks @ [k] \<and>
         length (calls w2) = length (calls w) + length ks + 1"
proof -
  have m: "map fst (calls w2) = map fst (calls w) @ ks @ [k]"
    using all_fail_calls[OF assms(1)] gateway_calls[OF assms(2)] by simp
  have "length (map fst (calls w2)) = length (map fst (calls w) @ ks @ [k])"
    by (simp only: m)
  then have "length (calls w2) = length (calls w) + length ks + 1" by simp
  with m show ?thesis by blast
qed

lemma run_section_loop:
  "run_section X keys sec symb exch chart w =
   api_key_loop X (int (length keys)) (section_prompt X sec symb exch) (section_image sec chart)
     0 keys w"
  by (cases sec)
    (simp_all add: get_fundamental_analysis_def get_sentiment_analysis_def
      get_technical_analysis_def get_recommendations_def)

text \<open>
  Claim C1. The fallback executor tries the keys in order and stops at the first
  success. If the keys \<open>failed\<close> all fail and the next key \<open>k\<close> succeeds with the
  text \<open>t\<close>, the executor returns \<open>t\<close>, whatever keys \<open>rest\<close> follow, and the gateway
  calls it made are those for \<open>failed\<close> and \<open>k\<close>, each once and in order: as many
  calls as the position of \<open>k\<close> in the chain. If the keys \<open>failed\<close> all fail and the
  last key \<open>k\<close> fails with the error \<open>e\<close>, the executor raises status 503 with the
  classification of \<open>e\<close>, after one call for every key of the chain. Both hold for
  each of the four section functions and for the legacy executor
  \<open>analyze_with_fallback\<close>.
\<close>

theorem fallback_executor_short_circuit:
  "(all_fail X (\<lambda>_. section_prompt X sec symb exch) (section_image sec chart) failed w = Some w1 \<and>
    analyze_with_gemini_api X k (section_prompt X sec symb exch) (section_image sec chart) w1 =
      (Inr t, w2) \<longrightarrow>
      run_section X (failed @ k # rest) sec symb exch chart w = (Returned (Some t), w2) \<and>
      map fst (calls w2) = map fst (calls w) @ failed @ [k] \<and>
      length (calls w2) = length (calls w) + length failed + 1) \<and>
   (all_fail X (\<lambda>_. section_prompt X sec symb exch) (section_image sec chart) failed w = Some w1 \<and>
    analyze_with_gemini_api X k (section_prompt X sec symb exch) (section_image sec chart) w1 =
      (Inl e, w2) \<longrightarrow>
      run_section X (failed @ [k]) sec symb exch chart w =
        (Raised \<lparr>status_code = 503, detail = get_user_friendly_error (unicode_lower X) e\<rparr>, w2) \<and>
      map fst (calls w2) = map fst (calls w) @ failed @ [k] \<and>
      length (calls w2) = length (calls w) + length failed + 1) \<and>
   (all_fail X (fallback_prompt X symb exch lg) (Some chart) failed w = Some w1 \<and>
    analyze_with_gemini_api X k (fallback_prompt X symb exch lg w1) (Some chart) w1 =
      (Inr t, w2) \<longrightarrow>
      analyze_with_fallback X (failed @ k # rest) symb exch chart lg w = (Returned t, w2) \<and>
      map fst (calls w2) = map fst (calls w) @ failed @ [k] \<and>
      length (calls w2) = length (calls w) + length failed + 1) \<and>
   (all_fail X (fallback_prompt X symb exch lg) (Some chart) failed w = Some w1 \<and>
    analyze_with_gemini_api X k (fallback_prompt X symb exch lg w1) (Some chart) w1 =
      (Inl e, w2) \<longrightarrow>
      analyze_with_fallback X (failed @ [k]) symb exch chart lg w =
        (Raised \<lparr>status_code = 503, detail = get_user_friendly_error (unicode_lower X) e\<rparr>, w2) \<and>
      map fst (calls w2) = map fst (calls w) @ failed @ [k] \<and>
      length (calls w2) = length (calls w) + length failed + 1)"
proof (intro conjI impI; elim conjE)
  let ?p = "section_prompt X sec symb exch"
  let ?img = "section_image sec chart"
  {
    assume a: "all_fail X (\<lambda>_. ?p) ?img failed w = Some w1"
      and b: "analyze_with_gemini_api X k ?p ?img w1 = (Inr t, w2)"
    show "run_section X (failed @ k # rest) sec symb exch chart w = (Returned (Some t), w2)"
      unfolding run_section_loop
      by (rule api_key_loop_success[OF a b]) simp
    show "map fst (calls w2) = map fst (calls w) @ failed @ [k]"
      using calls_after[OF a b] by simp
    show "length (calls w2) = length (calls w) + length failed + 1"
      using calls_after[OF a b] by simp
  }
  {
    assume a: "all_fail X (\<lambda>_. ?p) ?img failed w = Some w1"
      and b: "analyze_with_gemini_api X k ?p ?img w1 = (Inl e, w2)"
    show "run_section X (failed @ [k]) sec symb exch chart w =
        (Raised \<lparr>status_code = 503, detail = get_user_friendly_error (unicode_lower X) e\<rparr>, w2)"
      unfolding run_section_loop
      by (rule api_key_loop_exhausted[OF a b]) simp
    show "map fst (calls w2) = map fst (calls w) @ failed @ [k]"
      using calls_after[OF a b] by simp
    show "length (calls w2) = length (calls w) + length failed + 1"
      using calls_after[OF a b] by simp
  }
  let ?mk = "fallback_prompt X symb exch lg"
  {
    assume a: "all_fail X ?mk (Some chart) failed w = Some w1"
      and b: "analyze_with_gemini_api X k (?mk w1) (Some chart) w1 = (Inr t, w2)"
    show "analyze_with_fallback X (failed @ k # rest) symb exch chart lg w = (Returned t, w2)"
      unfolding analyze_with_fallback_def
      by (rule fallback_loop_success[OF a b]) simp
    show "map fst (calls w2) = map fst (calls w) @ failed @ [k]"
      using calls_after[OF a b] by simp
    show "length (calls w2) = length (calls w) + length failed + 1"
      using calls_after[OF a b] by simp
  }
  {
    assume a: "all_fail X ?mk (Some chart) failed w = Some w1"
      and b: "analyze_with_gemini_api X k (?mk w1) (Some chart) w1 = (Inl e, w2)"
    show "analyze_with_fallback X (failed @ [k]) symb exch chart lg w =
        (Raised \<lparr>status_code = 503, detail = get_user_friendly_error (unicode_lower X) e\<rparr>, w2)"
      unfolding analyze_with_fallback_def
      by (rule fallback_loop_exhausted[OF a b]) simp
    show "map fst (calls w2) = map fst (calls w) @ failed @ [k]"
      using calls_after[OF a b] by simp
    show "length (calls w2) = length (calls w) + length failed + 1"
      using calls_after[OF a b] by simp
  }
qed

lemma scripted_bad:
  "prefix ''bad'' k \<Longrightarrow>
   \<exists>w'. analyze_with_gemini_api scripted k p img w = (Inl ''503 Service Unavailable'', w')"
  by (simp add: analyze_with_gemini_api_def scripted_def scripted_send_def Let_def split: option.split)

lemma scripted_revoked:
  "\<exists>w'. analyze_with_gemini_api scripted ''revoked'' p img w = (Inl ''401 Unauthorized'', w')"
  by (simp add: analyze_with_gemini_api_def scripted_def scripted_send_def Let_def split: option.split)

lemma scripted_good:
  "\<not> prefix ''bad'' k \<Longrightarrow> k \<noteq> ''revoked'' \<Longrightarrow> \<not> prefix ''technical'' p \<Longrightarrow>
   \<exists>w'. analyze_with_gemini_api scripted k p img w = (Inr (''report by '' @ k), w')"
  by (simp add: analyze_with_gemini_api_def scripted_def scripted_send_def Let_def split: option.split)

lemma all_fail_bad:
  "\<forall>k \<in> set ks. prefix ''bad'' k \<Longrightarrow> \<exists>w1. all_fail scripted mk img ks w = Some w1"
proof (induction ks arbitrary: w)
  case Nil
  then show ?case by simp
next
  case (Cons k ks)
  then have "prefix ''bad'' k" by simp
  then obtain w' where "analyze_with_gemini_api scripted k (mk w) img w = (Inl ''503 Service Unavailable'', w')"
    using scripted_bad by blast
  with Cons show ?case by simp
qed

lemma prompts_scripted:
  "\<not> prefix ''technical'' (fundamental_prompt scripted a b)"
  "\<not> prefix ''technical'' (sentiment_prompt scripted a b)"
  "\<not> prefix ''technical'' (recommendations_prompt scripted a b)"
  "prefix ''technical'' (technical_prompt scripted a)"
  "\<not> prefix ''technical'' (fallback_prompt scripted a b lg w)"
  by (simp_all add: scripted_def fallback_prompt_def)

lemma msgs_class:
  "get_user_friendly_error (unicode_lower scripted) ''503 Service Unavailable'' = msg_busy"
  "get_user_friendly_error (unicode_lower scripted) ''401 Unauthorized'' = msg_auth"
  "get_user_friendly_error (unicode_lower scripted) ''429 rate limit reached'' = msg_throttle"
  by code_simp+

theorem fallback_executor_short_circuit_witness:
  "fst (get_fundamental_analysis scripted [''bad-1'', ''bad-2'', ''good'', ''spare''] ''tcs'' ''nse'' start) =
     Returned (Some ''report by good'') \<and>
   map fst (calls (snd (get_fundamental_analysis scripted
     [''bad-1'', ''bad-2'', ''good'', ''spare''] ''tcs'' ''nse'' start))) = [''bad-1'', ''bad-2'', ''good''] \<and>
   fst (get_fundamental_analysis scripted [''bad-1'', ''bad-2'', ''revoked''] ''tcs'' ''nse'' start) =
     Raised \<lparr>status_code = 503, detail = msg_auth\<rparr> \<and>
   length (calls (snd (get_fundamental_analysis scripted
     [''bad-1'', ''bad-2'', ''revoked''] ''tcs'' ''nse'' start))) = 3 \<and>
   fst (analyze_with_fallback scripted [''bad-1'', ''bad-2'', ''good'', ''spare''] ''tcs'' ''nse'' ''aGk='' True start) =
     Returned ''report by good'' \<and>
   fst (analyze_with_fallback scripted [''bad-1'', ''bad-2'', ''revoked''] ''tcs'' ''nse'' ''aGk='' True start) =
     Raised \<lparr>status_code = 503, detail = msg_auth\<rparr>"
proof -
  let ?p = "fundamental_prompt scripted (str_upper scripted ''tcs'') (str_upper scripted ''nse'')"
  let ?mk = "fallback_prompt scripted ''tcs'' ''nse'' True"
  have bad: "\<forall>k \<in> set [''bad-1'', ''bad-2'']. prefix ''bad'' k" by simp
  obtain w1 where w1: "all_fail scripted (\<lambda>_. ?p) None [''bad-1'', ''bad-2''] start = Some w1"
    using all_fail_bad[OF bad] by blast
  obtain v1 where v1: "all_fail scripted ?mk (Some ''aGk='') [''bad-1'', ''bad-2''] start = Some v1"
    using all_fail_bad[OF bad] by blast
  obtain w2 where g: "analyze_with_gemini_api scripted ''good'' ?p None w1 = (Inr ''report by good'', w2)"
    using scripted_good[of "''good''" ?p None w1] prompts_scripted by auto
  obtain w3 where r: "analyze_with_gemini_api scripted ''revoked'' ?p None w1 = (Inl ''401 Unauthorized'', w3)"
    using scripted_revoked by blast
  obtain v2 where g': "analyze_with_gemini_api scripted ''good'' (?mk v1) (Some ''aGk='') v1 =
      (Inr ''report by good'', v2)"
    using scripted_good[of "''good''" "?mk v1" "Some ''aGk=''" v1] prompts_scripted by auto
  obtain v3 where r': "analyze_with_gemini_api scripted ''revoked'' (?mk v1) (Some ''aGk='') v1 =
      (Inl ''401 Unauthorized'', v3)"
    using scripted_revoked by blast
  have c0: "calls start = []" by (simp add: start_def)
  note T = fallback_executor_short_circuit[where X = scripted and sec = Fundamental
      and symb = "''tcs''" and exch = "''nse''"
      and failed = "[''bad-1'', ''bad-2'']" and w = start and lg = True and chart = "''aGk=''"]
  from T[where k = "''good''" and rest = "[''spare'']" and t = "''report by good''"
      and ?w1.0 = w1 and ?w2.0 = w2] w1 g
  have a: "get_fundamental_analysis scripted [''bad-1'', ''bad-2'', ''good'', ''spare''] ''tcs'' ''nse'' start =
      (Returned (Some ''report by good''), w2)"
    and a': "map fst (calls w2) = [''bad-1'', ''bad-2'', ''good'']"
    by (simp_all add: c0)
  from T[where k = "''revoked''" and e = "''401 Unauthorized''" and ?w1.0 = w1 and ?w2.0 = w3] w1 r
  have b: "get_fundamental_analysis scripted [''bad-1'', ''bad-2'', ''revoked''] ''tcs'' ''nse'' start =
      (Raised \<lparr>status_code = 503, detail = msg_auth\<rparr>, w3)"
    and b': "length (calls w3) = 3"
    by (simp_all add: c0 msgs_class)
  from T[where k = "''good''" and rest = "[''spare'']" and t = "''report by good''"
      and ?w1.0 = v1 and ?w2.0 = v2] v1 g'
  have c: "analyze_with_fallback scripted [''bad-1'', ''bad-2'', ''good'', ''spare''] ''tcs'' ''nse'' ''aGk='' True start =
      (Returned ''report by good'', v2)"
    by simp
  from T[where k = "''revoked''" and e = "''401 Unauthorized''" and ?w1.0 = v1 and ?w2.0 = v3] v1 r'
  have d: "analyze_with_fallback scripted [''bad-1'', ''bad-2'', ''revoked''] ''tcs'' ''nse'' ''aGk='' True start =
      (Raised \<lparr>status_code = 503, detail = msg_auth\<rparr>, v3)"
    by (simp add: msgs_class)
  show ?thesis
    by (simp add: a a' b b' c d)
qed

lemma api_key_loop_text_or_error:
  "ks \<noteq> [] \<Longrightarrow> i + int (length ks) = n \<Longrightarrow>
   fst (api_key_loop X n prompt img i ks w) \<noteq> Returned None"
proof (induction ks arbitrary: i w)
  case Nil
  then show ?case by simp
next
  case (Cons k ks)
  show ?case
  proof (cases "analyze_with_gemini_api X k prompt img w")
    case (Pair r w')
    show ?thesis
    proof (cases r)
      case (Inr t)
      with Pair show ?thesis by simp
    next
      case (Inl e)
      show ?thesis
      proof (cases "i = n - 1")
        case True
        with Pair Inl show ?thesis by simp
      next
        case False
        with Cons.prems have "ks \<noteq> []" by auto
        moreover from Cons.prems have "(i + 1) + int (length ks) = n" by simp
        ultimately have "fst (api_key_loop X n prompt img (i + 1) ks w') \<noteq> Returned None"
          by (rule Cons.IH)
        with Pair Inl False show ?thesis by simp
      qed
    qed
  qed
qed

text \<open>
  Claim C9. The legacy executor with its test for \<open>503\<close> and \<open>overloaded\<close> gives,
  for every input, the result and the final state of the executor that goes on to the
  next key after any failure; and after a failure with any error text of a key that is
  not the last one, its loop continues with the next key.
\<close>

theorem fallback_ignores_error_kind:
  "analyze_with_fallback X keys symb exch chart lg w =
     proceed_on_any_failure X keys symb exch chart lg w \<and>
   (analyze_with_gemini_api X k (fallback_prompt X symb exch lg w) (Some chart) w = (Inl e, w') \<and>
    i \<noteq> n - 1 \<longrightarrow>
      analyze_with_fallback_loop X n symb exch chart lg i (k # rest) w =
      analyze_with_fallback_loop X n symb exch chart lg (i + 1) rest w')"
  by (simp add: analyze_with_fallback_def proceed_on_any_failure_def fallback_loop_eq)

theorem fallback_ignores_error_kind_witness:
  "analyze_with_fallback scripted [''revoked'', ''good''] ''tcs'' ''nse'' ''aGk='' False start =
     proceed_on_any_failure scripted [''revoked'', ''good''] ''tcs'' ''nse'' ''aGk='' False start \<and>
   fst (analyze_with_fallback scripted [''revoked'', ''good''] ''tcs'' ''nse'' ''aGk='' False start) =
     Returned ''report by good''"
proof -
  let ?mk = "fallback_prompt scripted ''tcs'' ''nse'' False"
  obtain w1 where r: "analyze_with_gemini_api scripted ''revoked'' (?mk start) (Some ''aGk='') start =
      (Inl ''401 Unauthorized'', w1)"
    using scripted_revoked by blast
  obtain w2 where g: "analyze_with_gemini_api scripted ''good'' (?mk w1) (Some ''aGk='') w1 =
      (Inr ''report by good'', w2)"
    using scripted_good[of "''good''" "?mk w1" "Some ''aGk=''" w1] prompts_scripted by auto
  note T = fallback_ignores_error_kind[where X = scripted and keys = "[''revoked'', ''good'']"
      and symb = "''tcs''" and exch = "''nse''" and chart = "''aGk=''" and lg = False and w = start
      and k = "''revoked''" and e = "''401 Unauthorized''" and w' = w1 and i = 0 and n = 2
      and rest = "[''good'']"]
  from T r have
    "analyze_with_fallback_loop scripted 2 ''tcs'' ''nse'' ''aGk='' False 0 [''revoked'', ''good''] start =
     analyze_with_fallback_loop scripted 2 ''tcs'' ''nse'' ''aGk='' False (0 + 1) [''good''] w1"
    by simp
  with g have "fst (analyze_with_fallback scripted [''revoked'', ''good''] ''tcs'' ''nse'' ''aGk='' False start) =
     Returned ''report by good''"
    by (simp add: analyze_with_fallback_def)
  with T show ?thesis by blast
qed

text \<open>
  Claim C10. With an empty credential chain each of the four section functions
  returns \<open>None\<close> and leaves the state, and so the call log, as it was: no gateway
  call and no exception. The legacy executor raises status 503 with its fixed busy
  message instead. With a chain that is not empty a section function never returns
  \<open>None\<close>: its outcome is a text or an exception.
\<close>

theorem empty_chain:
  "get_fundamental_analysis X [] symb exch w = (Returned None, w) \<and>
   get_sentiment_analysis X [] symb exch w = (Returned None, w) \<and>
   get_technical_analysis X [] symb exch chart w = (Returned None, w) \<and>
   get_recommendations X [] symb exch w = (Returned None, w) \<and>
   analyze_with_fallback X [] symb exch chart lg w =
     (Raised \<lparr>status_code = 503, detail = msg_all_busy\<rparr>, w) \<and>
   (keys \<noteq> [] \<longrightarrow>
      fst (get_fundamental_analysis X keys symb exch w) \<noteq> Returned None \<and>
      fst (get_sentiment_analysis X keys symb exch w) \<noteq> Returned None \<and>
      fst (get_technical_analysis X keys symb exch chart w) \<noteq> Returned None \<and>
      fst (get_recommendations X keys symb exch w) \<noteq> Returned None)"
  by (simp add: get_fundamental_analysis_def get_sentiment_analysis_def
      get_technical_analysis_def get_recommendations_def analyze_with_fallback_def
      api_key_loop_text_or_error)

theorem empty_chain_witness:
  "get_fundamental_analysis scripted [] ''tcs'' ''nse'' start = (Returned None, start) \<and>
   get_sentiment_analysis scripted [] ''tcs'' ''nse'' start = (Returned None, start) \<and>
   get_technical_analysis scripted [] ''tcs'' ''nse'' ''aGk='' start = (Returned None, start) \<and>
   get_recommendations scripted [] ''tcs'' ''nse'' start = (Returned None, start) \<and>
   analyze_with_fallback scripted [] ''tcs'' ''nse'' ''aGk='' True start =
     (Raised \<lparr>status_code = 503, detail = msg_all_busy\<rparr>, start) \<and>
   fst (get_fundamental_analysis scripted [''good''] ''tcs'' ''nse'' start) \<noteq> Returned None"
  using empty_chain[where X = scripted and symb = "''tcs''" and exch = "''nse''" and w = start
      and chart = "''aGk=''" and lg = True and keys = "[''good'']"]
  by simp

section \<open>Properties of the analysis orchestrator\<close>

text \<open>
  One turn of a task is one round of the loop of its section function, and the empty
  schedule runs the four section functions one after the other.
\<close>

lemma api_key_loop_turn:
  "api_key_loop X n prompt img i ks w =
     (case section_turn X n prompt img (Running i ks) w of
        (Finished r, w') \<Rightarrow> (r, w')
      | (Running i' ks', w') \<Rightarrow> api_key_loop X n prompt img i' ks' w')"
  by (cases ks) (auto split: prod.splits sum.splits)

lemma gather_empty_schedule:
  "gather_sections X keys symb exch chart [] w =
     (case get_fundamental_analysis X keys symb exch w of
        (f, w1) \<Rightarrow>
          (case get_sentiment_analysis X keys symb exch w1 of
             (s, w2) \<Rightarrow>
               (case get_technical_analysis X keys symb exch chart w2 of
                  (t, w3) \<Rightarrow>
                    (case get_recommendations X keys symb exch w3 of
                       (r, w4) \<Rightarrow> ([f, s, t, r], w4)))))"
  by (simp add: gather_sections_def get_fundamental_analysis_def get_sentiment_analysis_def
      get_technical_analysis_def get_recommendations_def split: prod.splits)

lemma turn_on_track:
  "on_track n t \<Longrightarrow> on_track n (fst (section_turn X n prompt img t w))"
proof (cases t)
  case (Finished r)
  then show "on_track n t \<Longrightarrow> ?thesis" by simp
next
  case (Running i ks)
  assume "on_track n t"
  with Running obtain k rest where ks: "ks = k # rest" and inv: "i + int (length ks) = n"
    by (cases ks) auto
  obtain res w' where g: "analyze_with_gemini_api X k prompt img w = (res, w')"
    by (cases "analyze_with_gemini_api X k prompt img w")
  show ?thesis
  proof (cases res)
    case (Inr result)
    with Running ks g show ?thesis by simp
  next
    case (Inl e)
    show ?thesis
    proof (cases "i = n - 1")
      case True
      with Running ks g Inl show ?thesis by simp
    next
      case False
      with ks inv have "rest \<noteq> []" by auto
      with Running ks g Inl False inv show ?thesis by simp
    qed
  qed
qed

lemma schedule_on_track:
  "list_all (\<lambda>(sec, t). on_track n t) tasks \<Longrightarrow>
   list_all (\<lambda>(sec, t). on_track n t) (fst (run_schedule X n symb exch chart schedule tasks w)) \<and>
   length (fst (run_schedule X n symb exch chart schedule tasks w)) = length tasks"
proof (induction schedule arbitrary: tasks w)
  case Nil
  then show ?case by simp
next
  case (Cons j schedule)
  show ?case
  proof (cases "j < length tasks")
    case False
    with Cons show ?thesis by simp
  next
    case True
    obtain sec t where st: "tasks ! j = (sec, t)" by (cases "tasks ! j")
    obtain t' w' where turn:
      "section_turn X n (section_prompt X sec symb exch) (section_image sec chart) t w = (t', w')"
      by (cases "section_turn X n (section_prompt X sec symb exch) (section_image sec chart) t w")
    from Cons.prems True st have "on_track n t"
      by (auto simp: list_all_length)
    then have "on_track n t'"
      using turn_on_track[of n t X "section_prompt X sec symb exch" "section_image sec chart" w]
        turn by simp
    have ok: "list_all (\<lambda>(sec, t). on_track n t) (tasks[j := (sec, t')])"
      unfolding list_all_length
    proof (intro allI impI)
      fix m assume m: "m < length (tasks[j := (sec, t')])"
      show "case tasks[j := (sec, t')] ! m of (sec, t) \<Rightarrow> on_track n t"
      proof (cases "m = j")
        case True
        with m \<open>on_track n t'\<close> show ?thesis by simp
      next
        case False
        with m Cons.prems show ?thesis by (simp add: list_all_length)
      qed
    qed
    from Cons.IH[OF ok, of w'] True st turn show ?thesis by simp
  qed
qed

lemma finish_text_or_error:
  "list_all (\<lambda>(sec, t). on_track n t) tasks \<Longrightarrow>
   list_all (\<lambda>r. r \<noteq> Returned None) (fst (finish_tasks X n symb exch chart tasks w)) \<and>
   length (fst (finish_tasks X n symb exch chart tasks w)) = length tasks"
proof (induction X n symb exch chart tasks w rule: finish_tasks.induct)
  case (1 X n symb exch chart w)
  show ?case by simp
next
  case (2 X n symb exch chart sec r rest w)
  then show ?case by (auto split: prod.splits)
next
  case (3 X n symb exch chart sec i ks rest w)
  from "3.prems" have ks: "ks \<noteq> []" "i + int (length ks) = n" by simp_all
  have "fst (api_key_loop X n (section_prompt X sec symb exch) (section_image sec chart) i ks w)
          \<noteq> Returned None"
    using ks by (rule api_key_loop_text_or_error)
  with 3 show ?case by (auto split: prod.splits)
qed

lemma gather_text_or_error:
  assumes "keys \<noteq> []"
  shows "\<exists>f s t r w'. gather_sections X keys symb exch chart schedule w = ([f, s, t, r], w') \<and>
           f \<noteq> Returned None \<and> s \<noteq> Returned None \<and> t \<noteq> Returned None \<and> r \<noteq> Returned None"
proof -
  let ?n = "int (length keys)"
  let ?tasks = "map (\<lambda>sec. (sec, Running 0 keys)) [Fundamental, Sentiment, Technical, Recommendations]"
  have init: "list_all (\<lambda>(sec, t). on_track ?n t) ?tasks" using assms by simp
  obtain tasks' w1 where rs: "run_schedule X ?n symb exch chart schedule ?tasks w = (tasks', w1)"
    by (cases "run_schedule X ?n symb exch chart schedule ?tasks w")
  from schedule_on_track[OF init, of X symb exch chart schedule w] rs
  have ok: "list_all (\<lambda>(sec, t). on_track ?n t) tasks'" and len: "length tasks' = 4" by simp_all
  obtain rs' w' where fin: "finish_tasks X ?n symb exch chart tasks' w1 = (rs', w')"
    by (cases "finish_tasks X ?n symb exch chart tasks' w1")
  from finish_text_or_error[OF ok, of X symb exch chart w1] fin len
  have all: "list_all (\<lambda>r. r \<noteq> Returned None) rs'" and len': "length rs' = 4" by simp_all
  from len' obtain f s t r where rs': "rs' = [f, s, t, r]"
    by (auto simp: length_Suc_conv numeral_eq_Suc)
  have "gather_sections X keys symb exch chart schedule w = (rs', w')"
    using rs fin by (simp add: gather_sections_def)
  with rs' all show ?thesis by auto
qed

lemma unavailable_texts:
  "unavailable ''Fundamental'' = [CHR 0xE2, CHR 0x9A, CHR 0xA0, CHR 0xEF, CHR 0xB8, CHR 0x8F] @
     '' Fundamental analysis temporarily unavailable. Please try again.''"
  "unavailable ''Sentiment'' = [CHR 0xE2, CHR 0x9A, CHR 0xA0, CHR 0xEF, CHR 0xB8, CHR 0x8F] @
     '' Sentiment analysis temporarily unavailable. Please try again.''"
  "unavailable ''Technical'' = [CHR 0xE2, CHR 0x9A, CHR 0xA0, CHR 0xEF, CHR 0xB8, CHR 0x8F] @
     '' Technical analysis temporarily unavailable. Please try again.''"
  "unavailable ''Recommendations'' = [CHR 0xE2, CHR 0x9A, CHR 0xA0, CHR 0xEF, CHR 0xB8, CHR 0x8F] @
     '' Recommendations analysis temporarily unavailable. Please try again.''"
  by (simp_all add: unavailable_def sym_warning_def)

lemma replace_one:
  assumes "a \<noteq> Returned None"
  shows "\<exists>field. (case a of Raised e \<Rightarrow> Some (unavailable name) | Returned v \<Rightarrow> v) = Some field \<and>
           (case a of Raised e \<Rightarrow> field = unavailable name | Returned v \<Rightarrow> v = Some field)"
  using assms by (cases a) auto

lemma analyze_stock_sections:
  assumes img: "process_uploaded_image image_file = Returned chart"
    and g: "gather_sections X keys symb exch chart schedule w = ([f, s, t, r], w')"
    and nn: "f \<noteq> Returned None" "s \<noteq> Returned None" "t \<noteq> Returned None" "r \<noteq> Returned None"
  shows "\<exists>resp. analyze_stock X keys symb exch image_file schedule w = (Returned resp, w') \<and>
           (case f of
              Raised e \<Rightarrow>
                fundamental_analysis resp =
                  [CHR 0xE2, CHR 0x9A, CHR 0xA0, CHR 0xEF, CHR 0xB8, CHR 0x8F] @
                  '' Fundamental analysis temporarily unavailable. Please try again.''
            | Returned v \<Rightarrow> v = Some (fundamental_analysis resp)) \<and>
           (case s of
              Raised e \<Rightarrow>
                sentiment_analysis resp =
                  [CHR 0xE2, CHR 0x9A, CHR 0xA0, CHR 0xEF, CHR 0xB8, CHR 0x8F] @
                  '' Sentiment analysis temporarily unavailable. Please try again.''
            | Returned v \<Rightarrow> v = Some (sentiment_analysis resp)) \<and>
           (case t of
              Raised e \<Rightarrow>
                technical_analysis resp =
                  [CHR 0xE2, CHR 0x9A, CHR 0xA0, CHR 0xEF, CHR 0xB8, CHR 0x8F] @
                  '' Technical analysis temporarily unavailable. Please try again.''
            | Returned v \<Rightarrow> v = Some (technical_analysis resp)) \<and>
           (case r of
              Raised e \<Rightarrow>
                recommendations resp =
                  [CHR 0xE2, CHR 0x9A, CHR 0xA0, CHR 0xEF, CHR 0xB8, CHR 0x8F] @
                  '' Recommendations analysis temporarily unavailable. Please try again.''
            | Returned v \<Rightarrow> v = Some (recommendations resp))"
proof -
  obtain a where a: "(case f of Raised e \<Rightarrow> Some (unavailable ''Fundamental'') | Returned v \<Rightarrow> v) = Some a"
    and fa: "case f of Raised e \<Rightarrow> a = unavailable ''Fundamental'' | Returned v \<Rightarrow> v = Some a"
    using replace_one[OF nn(1)] by blast
  obtain b where b: "(case s of Raised e \<Rightarrow> Some (unavailable ''Sentiment'') | Returned v \<Rightarrow> v) = Some b"
    and fb: "case s of Raised e \<Rightarrow> b = unavailable ''Sentiment'' | Returned v \<Rightarrow> v = Some b"
    using replace_one[OF nn(2)] by blast
  obtain c where c: "(case t of Raised e \<Rightarrow> Some (unavailable ''Technical'') | Returned v \<Rightarrow> v) = Some c"
    and fc: "case t of Raised e \<Rightarrow> c = unavailable ''Technical'' | Returned v \<Rightarrow> v = Some c"
    using replace_one[OF nn(3)] by blast
  obtain d where d: "(case r of Raised e \<Rightarrow> Some (unavailable ''Recommendations'') | Returned v \<Rightarrow> v) = Some d"
    and fd: "case r of Raised e \<Rightarrow> d = unavailable ''Recommendations'' | Returned v \<Rightarrow> v = Some d"
    using replace_one[OF nn(4)] by blast
  have rf: "replace_failed 0 [f, s, t, r] = [Some a, Some b, Some c, Some d]"
    using a b c d
    by (cases f; cases s; cases t; cases r; simp add: section_names_def)
  let ?resp = "\<lparr>symbol = str_upper X symb,
                exchange = str_upper X exch,
                chart_image = ''data:image/png;base64,'' @ chart,
                analysis = legacy_analysis (str_upper X symb) (str_upper X exch)
                             (strftime_now X (service w')),
                fundamental_analysis = a,
                sentiment_analysis = b,
                technical_analysis = c,
                recommendations = d,
                timestamp = isoformat_now X (service w')\<rparr>"
  have run: "analyze_stock X keys symb exch image_file schedule w = (Returned ?resp, w')"
    by (simp add: analyze_stock_def img g rf del: replace_failed.simps)
  have 1: "case f of Raised e \<Rightarrow> fundamental_analysis ?resp = unavailable ''Fundamental''
             | Returned v \<Rightarrow> v = Some (fundamental_analysis ?resp)"
    using fa by (cases f) simp_all
  have 2: "case s of Raised e \<Rightarrow> sentiment_analysis ?resp = unavailable ''Sentiment''
             | Returned v \<Rightarrow> v = Some (sentiment_analysis ?resp)"
    using fb by (cases s) simp_all
  have 3: "case t of Raised e \<Rightarrow> technical_analysis ?resp = unavailable ''Technical''
             | Returned v \<Rightarrow> v = Some (technical_analysis ?resp)"
    using fc by (cases t) simp_all
  have 4: "case r of Raised e \<Rightarrow> recommendations ?resp = unavailable ''Recommendations''
             | Returned v \<Rightarrow> v = Some (recommendations ?resp)"
    using fd by (cases r) simp_all
  show ?thesis
    apply (rule exI[of _ ?resp])
    apply (rule conjI[OF run])
    using 1 2 3 4 unfolding unavailable_texts
    by blast
qed

lemma analyze_stock_nonempty:
  assumes "process_uploaded_image image_file = Returned chart" and ne: "keys \<noteq> []"
  shows "\<exists>f s t r w' resp.
           gather_sections X keys symb exch chart schedule w = ([f, s, t, r], w') \<and>
           analyze_stock X keys symb exch image_file schedule w = (Returned resp, w') \<and>
           (case f of
              Raised e \<Rightarrow>
                fundamental_analysis resp =
                  [CHR 0xE2, CHR 0x9A, CHR 0xA0, CHR 0xEF, CHR 0xB8, CHR 0x8F] @
                  '' Fundamental analysis temporarily unavailable. Please try again.''
            | Returned v \<Rightarrow> v = Some (fundamental_analysis resp)) \<and>
           (case s of
              Raised e \<Rightarrow>
                sentiment_analysis resp =
                  [CHR 0xE2, CHR 0x9A, CHR 0xA0, CHR 0xEF, CHR 0xB8, CHR 0x8F] @
                  '' Sentiment analysis temporarily unavailable. Please try again.''
            | Returned v \<Rightarrow> v = Some (sentiment_analysis resp)) \<and>
           (case t of
              Raised e \<Rightarrow>
                technical_analysis resp =
                  [CHR 0xE2, CHR 0x9A, CHR 0xA0, CHR 0xEF, CHR 0xB8, CHR 0x8F] @
                  '' Technical analysis temporarily unavailable. Please try again.''
            | Returned v \<Rightarrow> v = Some (technical_analysis resp)) \<and>
           (case r of
              Raised e \<Rightarrow>
                recommendations resp =
                  [CHR 0xE2, CHR 0x9A, CHR 0xA0, CHR 0xEF, CHR 0xB8, CHR 0x8F] @
                  '' Recommendations analysis temporarily unavailable. Please try again.''
            | Returned v \<Rightarrow> v = Some (recommendations resp))"
proof -
  obtain f s t r w' where g: "gather_sections X keys symb exch chart schedule w = ([f, s, t, r], w')"
    and nn: "f \<noteq> Returned None" "s \<noteq> Returned None" "t \<noteq> Returned None" "r \<noteq> Returned None"
    using gather_text_or_error[OF ne] by blast
  from analyze_stock_sections[OF assms(1) g nn] g show ?thesis by blast
qed

text \<open>
  Claim C2. For every analyze-stock request whose image passes validation, run with
  the configured chain of three keys, and for every order in which the event loop lets
  the four section tasks take their turns, the request completes as an HTTP success,
  and each of the four section fields of the response shows the outcome of its section:
  the returned text when the section succeeded, and the fixed placeholder
  \<open>... analysis temporarily unavailable. Please try again.\<close> of that section, written
  out below, when its fallback chain was exhausted. This covers one failed section
  among four as well as four failed sections.
\<close>

theorem orchestrator_placeholders:
  assumes "process_uploaded_image image_file = Returned chart"
  shows "\<exists>f s t r w' resp.
           gather_sections X (GEMINI_API_KEYS k1 k2 k3) symb exch chart schedule w =
             ([f, s, t, r], w') \<and>
           analyze_stock X (GEMINI_API_KEYS k1 k2 k3) symb exch image_file schedule w =
             (Returned resp, w') \<and>
           (case f of
              Raised e \<Rightarrow>
                fundamental_analysis resp =
                  [CHR 0xE2, CHR 0x9A, CHR 0xA0, CHR 0xEF, CHR 0xB8, CHR 0x8F] @
                  '' Fundamental analysis temporarily unavailable. Please try again.''
            | Returned v \<Rightarrow> v = Some (fundamental_analysis resp)) \<and>
           (case s of
              Raised e \<Rightarrow>
                sentiment_analysis resp =
                  [CHR 0xE2, CHR 0x9A, CHR 0xA0, CHR 0xEF, CHR 0xB8, CHR 0x8F] @
                  '' Sentiment analysis temporarily unavailable. Please try again.''
            | Returned v \<Rightarrow> v = Some (sentiment_analysis resp)) \<and>
           (case t of
              Raised e \<Rightarrow>
                technical_analysis resp =
                  [CHR 0xE2, CHR 0x9A, CHR 0xA0, CHR 0xEF, CHR 0xB8, CHR 0x8F] @
                  '' Technical analysis temporarily unavailable. Please try again.''
            | Returned v \<Rightarrow> v = Some (technical_analysis resp)) \<and>
           (case r of
              Raised e \<Rightarrow>
                recommendations resp =
                  [CHR 0xE2, CHR 0x9A, CHR 0xA0, CHR 0xEF, CHR 0xB8, CHR 0x8F] @
                  '' Recommendations analysis temporarily unavailable. Please try again.''
            | Returned v \<Rightarrow> v = Some (recommendations resp))"
proof -
  have "GEMINI_API_KEYS k1 k2 k3 \<noteq> []" by (simp add: GEMINI_API_KEYS_def)
  with assms show ?thesis by (rule analyze_stock_nonempty)
qed

text \<open>
  Claim C8, amended. For every successful analyze-stock request the field
  \<open>chart_image\<close> is the fixed text \<open>data:image/png;base64,\<close> followed by the base64
  encoding of the uploaded bytes, whatever media type the upload declared.
\<close>

theorem chart_image_png_data_uri:
  assumes "analyze_stock X keys symb exch image_file schedule w = (Returned resp, w')"
  shows "chart_image resp = ''data:image/png;base64,'' @ b64encode (file_content image_file)"
proof (cases "process_uploaded_image image_file")
  case (Raised e)
  with assms show ?thesis by (simp add: analyze_stock_def)
next
  case (Returned chart)
  then have c: "chart = b64encode (file_content image_file)"
    by (simp add: process_uploaded_image_def Let_def split: if_splits)
  obtain results w1 where g: "gather_sections X keys symb exch chart schedule w = (results, w1)"
    by (cases "gather_sections X keys symb exch chart schedule w")
  from assms Returned g show ?thesis
    by (auto simp: analyze_stock_def c Let_def split: list.splits option.splits)
qed

lemma gather_one_failed:
  "fst (gather_sections scripted (GEMINI_API_KEYS ''good'' ''spare-1'' ''spare-2'') ''tcs'' ''nse''
         ''iVBORw=='' [0, 1, 2, 3, 2, 0, 2] start) =
   [Returned (Some ''report by good''), Returned (Some ''report by good''),
    Raised \<lparr>status_code = 503, detail = msg_throttle\<rparr>, Returned (Some ''report by good'')]"
  by code_simp

lemma gather_all_failed:
  "fst (gather_sections scripted (GEMINI_API_KEYS ''bad-1'' ''bad-2'' ''bad-3'') ''tcs'' ''nse''
         ''iVBORw=='' [3, 2, 1, 0, 0, 1, 3, 3] start) =
   [Raised \<lparr>status_code = 503, detail = msg_busy\<rparr>, Raised \<lparr>status_code = 503, detail = msg_busy\<rparr>,
    Raised \<lparr>status_code = 503, detail = msg_busy\<rparr>, Raised \<lparr>status_code = 503, detail = msg_busy\<rparr>]"
  by code_simp

text \<open>
  In the first of these runs the calls interleave: the call log shows the order the
  schedule gives, not the order of the section functions.
\<close>

lemma gather_one_failed_calls:
  "map (\<lambda>(k, m). take 4 (msg_text m)) (calls (snd (gather_sections scripted
      (GEMINI_API_KEYS ''good'' ''spare-1'' ''spare-2'') ''tcs'' ''nse'' ''iVBORw=='' [0, 1, 2, 3, 2, 0, 2] start))) =
   [''fund'', ''sent'', ''tech'', ''reco'', ''tech'', ''tech'']"
  by code_simp

lemma png_accepted:
  "process_uploaded_image
     \<lparr>filename = Some ''chart.png'', content_type = Some ''image/png'',
      file_content = [0x89, 0x50, 0x4E, 0x47]\<rparr> = Returned ''iVBORw==''"
  by (simp add: process_uploaded_image_def max_size_def b64_group_def b64_char_def b64_alphabet_def)

theorem orchestrator_placeholders_witness:
  "map_outcome
     (\<lambda>r. [fundamental_analysis r, sentiment_analysis r, technical_analysis r, recommendations r])
     (fst (analyze_stock scripted (GEMINI_API_KEYS ''good'' ''spare-1'' ''spare-2'') ''tcs'' ''nse''
        \<lparr>filename = Some ''chart.png'', content_type = Some ''image/png'',
         file_content = [0x89, 0x50, 0x4E, 0x47]\<rparr> [0, 1, 2, 3, 2, 0, 2] start)) =
   Returned [''report by good'', ''report by good'',
             [CHR 0xE2, CHR 0x9A, CHR 0xA0, CHR 0xEF, CHR 0xB8, CHR 0x8F] @
             '' Technical analysis temporarily unavailable. Please try again.'',
             ''report by good''] \<and>
   map_outcome
     (\<lambda>r. [fundamental_analysis r, sentiment_analysis r, technical_analysis r, recommendations r])
     (fst (analyze_stock scripted (GEMINI_API_KEYS ''bad-1'' ''bad-2'' ''bad-3'') ''tcs'' ''nse''
        \<lparr>filename = Some ''chart.png'', content_type = Some ''image/png'',
         file_content = [0x89, 0x50, 0x4E, 0x47]\<rparr> [3, 2, 1, 0, 0, 1, 3, 3] start)) =
   Returned [[CHR 0xE2, CHR 0x9A, CHR 0xA0, CHR 0xEF, CHR 0xB8, CHR 0x8F] @
             '' Fundamental analysis temporarily unavailable. Please try again.'',
             [CHR 0xE2, CHR 0x9A, CHR 0xA0, CHR 0xEF, CHR 0xB8, CHR 0x8F] @
             '' Sentiment analysis temporarily unavailable. Please try again.'',
             [CHR 0xE2, CHR 0x9A, CHR 0xA0, CHR 0xEF, CHR 0xB8, CHR 0x8F] @
             '' Technical analysis temporarily unavailable. Please try again.'',
             [CHR 0xE2, CHR 0x9A, CHR 0xA0, CHR 0xEF, CHR 0xB8, CHR 0x8F] @
             '' Recommendations analysis temporarily unavailable. Please try again.'']"
proof -
  let ?png = "\<lparr>filename = Some ''chart.png'', content_type = Some ''image/png'',
         file_content = [0x89, 0x50, 0x4E, 0x47]\<rparr>"
  obtain f s t r w' resp where
    g: "gather_sections scripted (GEMINI_API_KEYS ''good'' ''spare-1'' ''spare-2'') ''tcs'' ''nse''
         ''iVBORw=='' [0, 1, 2, 3, 2, 0, 2] start = ([f, s, t, r], w')"
    and a: "analyze_stock scripted (GEMINI_API_KEYS ''good'' ''spare-1'' ''spare-2'') ''tcs'' ''nse''
         ?png [0, 1, 2, 3, 2, 0, 2] start = (Returned resp, w')"
    and sh: "case f of Raised e \<Rightarrow> fundamental_analysis resp = [CHR 0xE2, CHR 0x9A, CHR 0xA0, CHR 0xEF, CHR 0xB8, CHR 0x8F] @
           '' Fundamental analysis temporarily unavailable. Please try again.''
             | Returned v \<Rightarrow> v = Some (fundamental_analysis resp)"
      "case s of Raised e \<Rightarrow> sentiment_analysis resp = [CHR 0xE2, CHR 0x9A, CHR 0xA0, CHR 0xEF, CHR 0xB8, CHR 0x8F] @
           '' Sentiment analysis temporarily unavailable. Please try again.''
             | Returned v \<Rightarrow> v = Some (sentiment_analysis resp)"
      "case t of Raised e \<Rightarrow> technical_analysis resp = [CHR 0xE2, CHR 0x9A, CHR 0xA0, CHR 0xEF, CHR 0xB8, CHR 0x8F] @
           '' Technical analysis temporarily unavailable. Please try again.''
             | Returned v \<Rightarrow> v = Some (technical_analysis resp)"
      "case r of Raised e \<Rightarrow> recommendations resp = [CHR 0xE2, CHR 0x9A, CHR 0xA0, CHR 0xEF, CHR 0xB8, CHR 0x8F] @
           '' Recommendations analysis temporarily unavailable. Please try again.''
             | Returned v \<Rightarrow> v = Some (recommendations resp)"
    using orchestrator_placeholders[OF png_accepted, of scripted "''good''" "''spare-1''" "''spare-2''"
        "''tcs''" "''nse''" "[0, 1, 2, 3, 2, 0, 2]" start] by blast
  from g gather_one_failed have
    "f = Returned (Some ''report by good'')" "s = Returned (Some ''report by good'')"
    "t = Raised \<lparr>status_code = 503, detail = msg_throttle\<rparr>" "r = Returned (Some ''report by good'')"
    by simp_all
  with sh a have one: "map_outcome
     (\<lambda>r. [fundamental_analysis r, sentiment_analysis r, technical_analysis r, recommendations r])
     (fst (analyze_stock scripted (GEMINI_API_KEYS ''good'' ''spare-1'' ''spare-2'') ''tcs'' ''nse''
        ?png [0, 1, 2, 3, 2, 0, 2] start)) =
   Returned [''report by good'', ''report by good'',
             [CHR 0xE2, CHR 0x9A, CHR 0xA0, CHR 0xEF, CHR 0xB8, CHR 0x8F] @
             '' Technical analysis temporarily unavailable. Please try again.'',
             ''report by good'']"
    by simp
  obtain f s t r w' resp where
    g: "gather_sections scripted (GEMINI_API_KEYS ''bad-1'' ''bad-2'' ''bad-3'') ''tcs'' ''nse''
         ''iVBORw=='' [3, 2, 1, 0, 0, 1, 3, 3] start = ([f, s, t, r], w')"
    and a: "analyze_stock scripted (GEMINI_API_KEYS ''bad-1'' ''bad-2'' ''bad-3'') ''tcs'' ''nse''
         ?png [3, 2, 1, 0, 0, 1, 3, 3] start = (Returned resp, w')"
    and sh: "case f of Raised e \<Rightarrow> fundamental_analysis resp = [CHR 0xE2, CHR 0x9A, CHR 0xA0, CHR 0xEF, CHR 0xB8, CHR 0x8F] @
           '' Fundamental analysis temporarily unavailable. Please try again.''
             | Returned v \<Rightarrow> v = Some (fundamental_analysis resp)"
      "case s of Raised e \<Rightarrow> sentiment_analysis resp = [CHR 0xE2, CHR 0x9A, CHR 0xA0, CHR 0xEF, CHR 0xB8, CHR 0x8F] @
           '' Sentiment analysis temporarily unavailable. Please try again.''
             | Returned v \<Rightarrow> v = Some (sentiment_analysis resp)"
      "case t of Raised e \<Rightarrow> technical_analysis resp = [CHR 0xE2, CHR 0x9A, CHR 0xA0, CHR 0xEF, CHR 0xB8, CHR 0x8F] @
           '' Technical analysis temporarily unavailable. Please try again.''
             | Returned v \<Rightarrow> v = Some (technical_analysis resp)"
      "case r of Raised e \<Rightarrow> recommendations resp = [CHR 0xE2, CHR 0x9A, CHR 0xA0, CHR 0xEF, CHR 0xB8, CHR 0x8F] @
           '' Recommendations analysis temporarily unavailable. Please try again.''
             | Returned v \<Rightarrow> v = Some (recommendations resp)"
    using orchestrator_placeholders[OF png_accepted, of scripted "''bad-1''" "''bad-2''" "''bad-3''"
        "''tcs''" "''nse''" "[3, 2, 1, 0, 0, 1, 3, 3]" start] by blast
  from g gather_all_failed have
    "f = Raised \<lparr>status_code = 503, detail = msg_busy\<rparr>" "s = Raised \<lparr>status_code = 503, detail = msg_busy\<rparr>"
    "t = Raised \<lparr>status_code = 503, detail = msg_busy\<rparr>" "r = Raised \<lparr>status_code = 503, detail = msg_busy\<rparr>"
    by simp_all
  with sh a have all: "map_outcome
     (\<lambda>r. [fundamental_analysis r, sentiment_analysis r, technical_analysis r, recommendations r])
     (fst (analyze_stock scripted (GEMINI_API_KEYS ''bad-1'' ''bad-2'' ''bad-3'') ''tcs'' ''nse''
        ?png [3, 2, 1, 0, 0, 1, 3, 3] start)) =
   Returned [[CHR 0xE2, CHR 0x9A, CHR 0xA0, CHR 0xEF, CHR 0xB8, CHR 0x8F] @
             '' Fundamental analysis temporarily unavailable. Please try again.'',
             [CHR 0xE2, CHR 0x9A, CHR 0xA0, CHR 0xEF, CHR 0xB8, CHR 0x8F] @
             '' Sentiment analysis temporarily unavailable. Please try again.'',
             [CHR 0xE2, CHR 0x9A, CHR 0xA0, CHR 0xEF, CHR 0xB8, CHR 0x8F] @
             '' Technical analysis temporarily unavailable. Please try again.'',
             [CHR 0xE2, CHR 0x9A, CHR 0xA0, CHR 0xEF, CHR 0xB8, CHR 0x8F] @
             '' Recommendations analysis temporarily unavailable. Please try again.'']"
    by simp
  from one all show ?thesis by blast
qed

lemma jpeg_accepted:
  "process_uploaded_image
     \<lparr>filename = Some ''chart.jpg'', content_type = Some ''image/jpeg'',
      file_content = [0xFF, 0xD8, 0xFF]\<rparr> = Returned ''/9j/''"
  by (simp add: process_uploaded_image_def max_size_def b64_group_def b64_char_def b64_alphabet_def)

lemma gather_jpeg:
  "fst (gather_sections scripted [''good''] ''tcs'' ''nse'' ''/9j/'' [] start) =
   [Returned (Some ''report by good''), Returned (Some ''report by good''),
    Raised \<lparr>status_code = 503, detail = msg_throttle\<rparr>, Returned (Some ''report by good'')]"
  by code_simp

text \<open>
  Claim C8 as stated fails: the wrapper is not inferred from the media type of the
  upload. A JPEG upload gets the wrapper \<open>data:image/png\<close>.
\<close>

theorem chart_image_counterexample:
  "map_outcome chart_image
     (fst (analyze_stock scripted [''good''] ''tcs'' ''nse''
        \<lparr>filename = Some ''chart.jpg'', content_type = Some ''image/jpeg'',
         file_content = [0xFF, 0xD8, 0xFF]\<rparr> [] start)) =
   Returned ''data:image/png;base64,/9j/'' \<and>
   \<not> prefix ''data:image/jpeg'' ''data:image/png;base64,/9j/''"
  by (simp add: analyze_stock_def jpeg_accepted case_prod_beta Let_def gather_jpeg section_names_def
      del: replace_failed.simps) (simp add: section_names_def)

theorem chart_image_png_data_uri_witness:
  "map_outcome chart_image
     (fst (analyze_stock scripted (GEMINI_API_KEYS ''good'' ''spare-1'' ''spare-2'') ''tcs'' ''nse''
        \<lparr>filename = Some ''chart.png'', content_type = Some ''image/png'',
         file_content = [0x89, 0x50, 0x4E, 0x47]\<rparr> [0, 1, 2, 3, 2, 0, 2] start)) =
   Returned ''data:image/png;base64,iVBORw==''"
proof -
  let ?png = "\<lparr>filename = Some ''chart.png'', content_type = Some ''image/png'',
         file_content = [0x89, 0x50, 0x4E, 0x47]\<rparr>"
  obtain resp w' where a: "analyze_stock scripted (GEMINI_API_KEYS ''good'' ''spare-1'' ''spare-2'')
      ''tcs'' ''nse'' ?png [0, 1, 2, 3, 2, 0, 2] start = (Returned resp, w')"
    using analyze_stock_nonempty[OF png_accepted, of "GEMINI_API_KEYS ''good'' ''spare-1'' ''spare-2''"
        scripted "''tcs''" "''nse''" "[0, 1, 2, 3, 2, 0, 2]" start]
    by (auto simp: GEMINI_API_KEYS_def)
  have enc: "b64encode [0x89, 0x50, 0x4E, 0x47 :: byte] = ''iVBORw==''"
    by (simp add: b64_group_def b64_char_def b64_alphabet_def)
  have sel: "file_content ?png = [0x89, 0x50, 0x4E, 0x47]" by simp
  have "chart_image resp = ''data:image/png;base64,'' @ b64encode (file_content ?png)"
    using a by (rule chart_image_png_data_uri)
  then have "chart_image resp = ''data:image/png;base64,'' @ ''iVBORw==''"
    by (simp only: sel enc)
  then have "chart_image resp = ''data:image/png;base64,iVBORw==''" by simp
  with a show ?thesis by simp
qed

end
